theory Spec2Isabelle
  imports Complex_Main
begin

section \<open>Values of the descriptor tree\<close>

text \<open>
  The dictionary mapper works on the tree that \<^verbatim>\<open>json.load\<close> returns: \<^verbatim>\<open>None\<close>, booleans,
  integers, floats, strings, lists and dictionaries with string keys. A float is
  represented by its exact value (the not-a-number and infinite floats are not
  represented); a dictionary is an association list read with \<open>map_of\<close>, each key
  occurring once. Strings are ASCII strings: \<^verbatim>\<open>str.upper\<close> and \<^verbatim>\<open>str.strip\<close> are modelled
  on the ASCII letters and the ASCII white space.
\<close>

datatype json =
    JNull
  | JBool bool
  | JInt int
  | JFloat rat
  | JStr string
  | JList "json list"
  | JObj "(string \<times> json) list"

text \<open>The exceptions the code can raise; all are subclasses of \<^verbatim>\<open>Exception\<close>.\<close>

datatype exn = KeyError | AttributeError | TypeError | IndexError | ValueError

text \<open>What the functions print on the error stream, one event per \<^verbatim>\<open>print\<close>.\<close>

datatype event =
    ValueTypeError exn
  | EntityTypeError exn
  | MissingRequiredKey json
  | MissingConceptKey json

subsection \<open>Python primitives\<close>

text \<open>\<^verbatim>\<open>x[k]\<close> for a string key \<open>k\<close>.\<close>

fun getitem :: "json \<Rightarrow> string \<Rightarrow> exn + json" where
  "getitem (JObj kvs) k = (case map_of kvs k of None \<Rightarrow> Inl KeyError | Some v \<Rightarrow> Inr v)"
| "getitem _ k = Inl TypeError"

text \<open>\<^verbatim>\<open>x.get(k, d)\<close>; only a dictionary has the method.\<close>

fun get :: "json \<Rightarrow> string \<Rightarrow> json \<Rightarrow> exn + json" where
  "get (JObj kvs) k d = (case map_of kvs k of None \<Rightarrow> Inr d | Some v \<Rightarrow> Inr v)"
| "get _ k d = Inl AttributeError"

text \<open>
  \<^verbatim>\<open>k in x\<close> for a string \<open>k\<close>: a key of a dictionary, an item of a list, a substring
  of a string.
\<close>

fun starts_with :: "string \<Rightarrow> string \<Rightarrow> bool" where
  "starts_with [] s = True"
| "starts_with (k # ks) [] = False"
| "starts_with (k # ks) (c # cs) = (k = c \<and> starts_with ks cs)"

fun substring :: "string \<Rightarrow> string \<Rightarrow> bool" where
  "substring k [] = (k = [])"
| "substring k (c # cs) = (starts_with k (c # cs) \<or> substring k cs)"

fun contains :: "string \<Rightarrow> json \<Rightarrow> exn + bool" where
  "contains k (JObj kvs) = Inr (map_of kvs k \<noteq> None)"
| "contains k (JList xs) = Inr (JStr k \<in> set xs)"
| "contains k (JStr s) = Inr (substring k s)"
| "contains k _ = Inl TypeError"

definition upper_char :: "char \<Rightarrow> char" where
  "upper_char c =
     (case map_of (zip ''abcdefghijklmnopqrstuvwxyz'' ''ABCDEFGHIJKLMNOPQRSTUVWXYZ'') c of
        None \<Rightarrow> c
      | Some u \<Rightarrow> u)"

definition upper_str :: "string \<Rightarrow> string" where
  "upper_str s = map upper_char s"

text \<open>\<^verbatim>\<open>x.upper()\<close>; only a string has the method.\<close>

fun upper :: "json \<Rightarrow> exn + string" where
  "upper (JStr s) = Inr (upper_str s)"
| "upper _ = Inl AttributeError"

definition is_space :: "char \<Rightarrow> bool" where
  "is_space c =
     (c \<in> set [CHR 0x09, CHR 0x0A, CHR 0x0B, CHR 0x0C, CHR 0x0D,
                CHR 0x1C, CHR 0x1D, CHR 0x1E, CHR 0x1F, CHR 0x20])"

definition strip :: "string \<Rightarrow> string" where
  "strip s = rev (dropWhile is_space (rev (dropWhile is_space s)))"

text \<open>Truth value of \<open>x\<close> in \<^verbatim>\<open>if not x\<close>.\<close>

fun truthy :: "json \<Rightarrow> bool" where
  "truthy JNull = False"
| "truthy (JBool b) = b"
| "truthy (JInt i) = (i \<noteq> 0)"
| "truthy (JFloat r) = (r \<noteq> 0)"
| "truthy (JStr s) = (s \<noteq> [])"
| "truthy (JList xs) = (xs \<noteq> [])"
| "truthy (JObj kvs) = (kvs \<noteq> [])"

text \<open>\<^verbatim>\<open>x[0]\<close>.\<close>

fun index0 :: "json \<Rightarrow> exn + json" where
  "index0 (JList []) = Inl IndexError"
| "index0 (JList (x # xs)) = Inr x"
| "index0 (JStr []) = Inl IndexError"
| "index0 (JStr (c # cs)) = Inr (JStr [c])"
| "index0 (JObj kvs) = Inl KeyError"
| "index0 _ = Inl TypeError"

text \<open>
  The elements a \<^verbatim>\<open>for\<close> loop or a generator visits: the items of a list, the
  characters of a string, the keys of a dictionary; nothing else is iterable.
\<close>

fun iter :: "json \<Rightarrow> exn + json list" where
  "iter (JList xs) = Inr xs"
| "iter (JStr s) = Inr (map (\<lambda>c. JStr [c]) s)"
| "iter (JObj kvs) = Inr (map (\<lambda>kv. JStr (fst kv)) kvs)"
| "iter _ = Inl TypeError"

text \<open>
  \<^verbatim>\<open>x == y\<close>. Booleans, integers and floats compare by value (\<^verbatim>\<open>True == 1\<close>,
  \<^verbatim>\<open>1 == 1.0\<close>), lists item by item, dictionaries key by key; values of different kinds
  are unequal.
\<close>

fun num_val :: "json \<Rightarrow> rat option" where
  "num_val (JBool b) = Some (if b then 1 else 0)"
| "num_val (JInt i) = Some (of_int i)"
| "num_val (JFloat r) = Some r"
| "num_val _ = None"

fun py_eq :: "json \<Rightarrow> json \<Rightarrow> bool"
  and py_eq_list :: "json list \<Rightarrow> json list \<Rightarrow> bool"
  and py_eq_items :: "(string \<times> json) list \<Rightarrow> (string \<times> json) list \<Rightarrow> bool" where
  "py_eq JNull JNull = True"
| "py_eq (JStr s) (JStr t) = (s = t)"
| "py_eq (JList xs) (JList ys) = py_eq_list xs ys"
| "py_eq (JObj xs) (JObj ys) = (set (map fst xs) = set (map fst ys) \<and> py_eq_items xs ys)"
| "py_eq a b = (case (num_val a, num_val b) of (Some x, Some y) \<Rightarrow> x = y | _ \<Rightarrow> False)"
| "py_eq_list [] [] = True"
| "py_eq_list (x # xs) (y # ys) = (py_eq x y \<and> py_eq_list xs ys)"
| "py_eq_list _ _ = False"
| "py_eq_items [] ys = True"
| "py_eq_items (kv # xs) ys =
     ((case map_of ys (fst kv) of None \<Rightarrow> False | Some w \<Rightarrow> py_eq (snd kv) w) \<and> py_eq_items xs ys)"

text \<open>\<^verbatim>\<open>isinstance(x, str)\<close> and \<^verbatim>\<open>isinstance(x, (int, float))\<close>; \<^verbatim>\<open>bool\<close> is a subclass of \<^verbatim>\<open>int\<close>.\<close>

fun is_str :: "json \<Rightarrow> bool" where
  "is_str (JStr s) = True"
| "is_str _ = False"

fun is_int_or_float :: "json \<Rightarrow> bool" where
  "is_int_or_float (JBool b) = True"
| "is_int_or_float (JInt i) = True"
| "is_int_or_float (JFloat r) = True"
| "is_int_or_float _ = False"

text \<open>
  Sequencing of statements that may raise: the first exception ends the block, as it
  does in the body of a \<^verbatim>\<open>try\<close>.
\<close>

definition andthen :: "exn + 'a \<Rightarrow> ('a \<Rightarrow> exn + 'b) \<Rightarrow> exn + 'b" where
  "andthen m f = (case m of Inl e \<Rightarrow> Inl e | Inr v \<Rightarrow> f v)"

section \<open>Value-type resolver\<close>

text \<open>The body of the \<^verbatim>\<open>try\<close> block of \<^verbatim>\<open>determine_value_type\<close>.\<close>

definition nominal_value_type :: "json \<Rightarrow> exn + string" where
  "nominal_value_type feature =
     andthen (contains ''valueSet'' feature) (\<lambda>present.
     if \<not> present then Inl ValueError
     else
     andthen (getitem feature ''valueSet'') (\<lambda>vs.
     andthen (get vs ''concept'' (JList [])) (\<lambda>concepts.
     if \<not> truthy concepts then Inl ValueError
     else
     andthen (index0 concepts) (\<lambda>c.
     andthen (get c ''code'' (JStr [])) (\<lambda>first_code.
     if is_str first_code then Inr ''text''
     else if is_int_or_float first_code then Inr ''decimal''
     else Inl ValueError)))))"

definition type_mapping :: "string \<Rightarrow> string option" where
  "type_mapping =
     map_of [(''NUMERIC'', ''decimal''), (''BOOLEAN'', ''boolean''), (''DATETIME'', ''datetime'')]"

definition determine_value_type_try :: "json \<Rightarrow> exn + string" where
  "determine_value_type_try feature =
     andthen (getitem feature ''name'') (\<lambda>feature_name.
     andthen (get feature ''dataType'' (JStr [])) (\<lambda>dt.
     andthen (upper dt) (\<lambda>data_type.
     if data_type = [] then Inl ValueError
     else if data_type = ''NOMINAL'' then nominal_value_type feature
     else
       (case type_mapping data_type of
          None \<Rightarrow> Inl ValueError
        | Some value_type \<Rightarrow> Inr value_type))))"

text \<open>\<^verbatim>\<open>except Exception\<close>: the error is printed and the sentinel returned.\<close>

definition determine_value_type :: "json \<Rightarrow> string \<times> event list" where
  "determine_value_type feature =
     (case determine_value_type_try feature of
        Inl e \<Rightarrow> (''error'', [ValueTypeError e])
      | Inr v \<Rightarrow> (v, []))"

section \<open>Entity-type resolver\<close>







section \<open>Variable extractor\<close>

record variable =
  var_table :: string
  var_name :: json
  var_valueType :: string
  var_entityType :: json
  var_unit :: string
  var_label :: string
  var_script :: string

text \<open>
  What an f-string puts for \<^verbatim>\<open>{x}\<close>: a string as it is; the text of any other value is
  left to the parameter \<open>repr\<close>.
\<close>

fun format :: "(json \<Rightarrow> string) \<Rightarrow> json \<Rightarrow> string" where
  "format repr (JStr s) = s"
| "format repr v = repr v"

fun the_str :: "json \<Rightarrow> string" where
  "the_str (JStr s) = s"
| "the_str _ = []"

fun join_strings :: "string \<Rightarrow> string list \<Rightarrow> string" where
  "join_strings sep [] = []"
| "join_strings sep [x] = x"
| "join_strings sep (x # y # ys) = x @ sep @ join_strings sep (y # ys)"

text \<open>\<^verbatim>\<open>sep.join(x)\<close>: \<open>x\<close> must be iterable and every item a string.\<close>

definition join :: "string \<Rightarrow> json \<Rightarrow> exn + string" where
  "join sep x =
     (case iter x of
        Inl e \<Rightarrow> Inl e
      | Inr items \<Rightarrow>
          if list_all is_str items then Inr (join_strings sep (map the_str items))
          else Inl TypeError)"

text \<open>
  The items of \<^verbatim>\<open>for x in a + b\<close>. Two lists or two strings are concatenated; any other
  pair either has no \<^verbatim>\<open>+\<close> or adds up to a number, which is not iterable.
\<close>

fun iter_sum :: "json \<Rightarrow> json \<Rightarrow> exn + json list" where
  "iter_sum (JList xs) (JList ys) = Inr (xs @ ys)"
| "iter_sum (JStr s) (JStr t) = Inr (map (\<lambda>c. JStr [c]) (s @ t))"
| "iter_sum _ _ = Inl TypeError"

text \<open>
  The body of the inner \<^verbatim>\<open>try\<close> block for one feature: what it prints and the row, or the
  exception that leaves the block.
\<close>

definition variable_row ::
  "(json \<Rightarrow> string) \<Rightarrow> string \<Rightarrow> json \<Rightarrow> json \<Rightarrow> event list \<times> (exn + variable)" where
  "variable_row repr table_name entity_type feature =
     (case getitem feature ''name'' of
        Inl e \<Rightarrow> ([], Inl e)
      | Inr name \<Rightarrow>
          (let (value_type, printed) = determine_value_type feature in
           (printed,
            andthen (get feature ''description'' (JStr [])) (\<lambda>d.
            andthen (get feature ''generatedDescription'' (JList [])) (\<lambda>g.
            andthen (join '' '' g) (\<lambda>joined.
            Inr \<lparr>var_table = table_name, var_name = name, var_valueType = value_type,
                  var_entityType = entity_type, var_unit = [],
                  var_label = strip (format repr d @ '' '' @ joined),
                  var_script =
                    ''$('' @ [CHR 0x27] @ format repr name @ [CHR 0x27] @ '')''\<rparr>))))))"

text \<open>
  The \<^verbatim>\<open>for\<close> loop: a \<^verbatim>\<open>KeyError\<close> is printed and the feature skipped, any other exception
  leaves the loop; rows are appended in the order of the features.
\<close>

fun variables_loop ::
  "(json \<Rightarrow> string) \<Rightarrow> string \<Rightarrow> json \<Rightarrow> json list \<Rightarrow> event list \<times> (exn + variable list)" where
  "variables_loop repr table_name entity_type [] = ([], Inr [])"
| "variables_loop repr table_name entity_type (feature # rest) =
     (case variable_row repr table_name entity_type feature of
        (printed, Inl e) \<Rightarrow>
          if e = KeyError then
            (case variables_loop repr table_name entity_type rest of
               (printed', r) \<Rightarrow> (printed @ [MissingRequiredKey feature] @ printed', r))
          else (printed, Inl e)
      | (printed, Inr row) \<Rightarrow>
          (case variables_loop repr table_name entity_type rest of
             (printed', Inl e) \<Rightarrow> (printed @ printed', Inl e)
           | (printed', Inr rows) \<Rightarrow> (printed @ printed', Inr (row # rows))))"

text \<open>\<^verbatim>\<open>except AttributeError: raise ValueError\<close>; other exceptions pass.\<close>

definition invalid_structure :: "exn \<Rightarrow> exn" where
  "invalid_structure e = (if e = AttributeError then ValueError else e)"

definition extract_variables ::
  "(json \<Rightarrow> string) \<Rightarrow> json \<Rightarrow> string \<Rightarrow> json \<Rightarrow> event list \<times> (exn + variable list)" where
  "extract_variables repr entries table_name entity_type =
     (case andthen (get entries ''features'' (JList [])) (\<lambda>fs.
           andthen (get entries ''outcomes'' (JList [])) (\<lambda>os. iter_sum fs os)) of
        Inl e \<Rightarrow> ([], Inl (invalid_structure e))
      | Inr features \<Rightarrow>
          (case variables_loop repr table_name entity_type features of
             (printed, Inl e) \<Rightarrow> (printed, Inl (invalid_structure e))
           | (printed, Inr rows) \<Rightarrow> (printed, Inr rows)))"

section \<open>Category extractor\<close>

record category =
  cat_table :: string
  cat_variable :: json
  cat_name :: json
  cat_code :: string
  cat_missing :: int
  cat_label :: json

text \<open>The list appended for one concept; the items are evaluated from left to right.\<close>

definition concept_row :: "string \<Rightarrow> json \<Rightarrow> json \<Rightarrow> exn + category" where
  "concept_row table_name feature concept =
     andthen (getitem feature ''name'') (\<lambda>name.
     andthen (get concept ''code'' (JStr [])) (\<lambda>code.
     andthen (get concept ''display'' (JStr [])) (\<lambda>display.
     Inr \<lparr>cat_table = table_name, cat_variable = name, cat_name = code,
           cat_code = [], cat_missing = 0, cat_label = display\<rparr>)))"

text \<open>
  The loop over the concepts of one feature: a \<^verbatim>\<open>KeyError\<close> is printed with
  \<^verbatim>\<open>feature.get('name')\<close> and the concept skipped, any other exception leaves the loop.
\<close>

fun concepts_loop :: "string \<Rightarrow> json \<Rightarrow> json list \<Rightarrow> event list \<times> (exn + category list)" where
  "concepts_loop table_name feature [] = ([], Inr [])"
| "concepts_loop table_name feature (concept # rest) =
     (case concept_row table_name feature concept of
        Inl e \<Rightarrow>
          if e = KeyError then
            (case get feature ''name'' JNull of
               Inl e' \<Rightarrow> ([], Inl e')
             | Inr n \<Rightarrow>
                 (case concepts_loop table_name feature rest of
                    (printed, r) \<Rightarrow> (MissingConceptKey n # printed, r)))
          else ([], Inl e)
      | Inr row \<Rightarrow>
          (case concepts_loop table_name feature rest of
             (printed, Inl e) \<Rightarrow> (printed, Inl e)
           | (printed, Inr rows) \<Rightarrow> (printed, Inr (row # rows))))"

text \<open>
  The concepts the inner loop visits for one feature: none unless the upper-cased
  \<^verbatim>\<open>dataType\<close> is \<^verbatim>\<open>NOMINAL\<close> and the feature has a \<^verbatim>\<open>valueSet\<close> (\<^verbatim>\<open>and\<close> evaluates its
  right side only when the left side holds).
\<close>

definition nominal_concepts :: "json \<Rightarrow> exn + json list" where
  "nominal_concepts feature =
     andthen (get feature ''dataType'' (JStr [])) (\<lambda>dt.
     andthen (upper dt) (\<lambda>data_type.
     if data_type \<noteq> ''NOMINAL'' then Inr []
     else
     andthen (contains ''valueSet'' feature) (\<lambda>present.
     if \<not> present then Inr []
     else
     andthen (getitem feature ''valueSet'') (\<lambda>vs.
     andthen (get vs ''concept'' (JList [])) (\<lambda>cs. iter cs)))))"

definition feature_categories :: "string \<Rightarrow> json \<Rightarrow> event list \<times> (exn + category list)" where
  "feature_categories table_name feature =
     (case nominal_concepts feature of
        Inl e \<Rightarrow> ([], Inl e)
      | Inr concepts \<Rightarrow> concepts_loop table_name feature concepts)"

fun categories_loop :: "string \<Rightarrow> json list \<Rightarrow> event list \<times> (exn + category list)" where
  "categories_loop table_name [] = ([], Inr [])"
| "categories_loop table_name (feature # rest) =
     (case feature_categories table_name feature of
        (printed, Inl e) \<Rightarrow> (printed, Inl e)
      | (printed, Inr rows) \<Rightarrow>
          (case categories_loop table_name rest of
             (printed', Inl e) \<Rightarrow> (printed @ printed', Inl e)
           | (printed', Inr rows') \<Rightarrow> (printed @ printed', Inr (rows @ rows'))))"

definition extract_categories :: "json \<Rightarrow> string \<Rightarrow> event list \<times> (exn + category list)" where
  "extract_categories entries table_name =
     (case andthen (get entries ''features'' (JList [])) iter of
        Inl e \<Rightarrow> ([], Inl (invalid_structure e))
      | Inr features \<Rightarrow>
          (case categories_loop table_name features of
             (printed, Inl e) \<Rightarrow> (printed, Inl (invalid_structure e))
           | (printed, Inr rows) \<Rightarrow> (printed, Inr rows)))"

section \<open>Availability encoder\<close>

text \<open>
  A data frame is its columns in order, each a name and its cells; the names are
  distinct. A cell is missing (\<^verbatim>\<open>None\<close>, a not-a-number float, a missing timestamp) or
  holds a value. The file reads and the file write are outside the model: the frame
  read from the input file and the outcome of reading the dictionary's \<^verbatim>\<open>name\<close> column
  are arguments, the frame handed to \<^verbatim>\<open>to_csv\<close> and the lines printed are the result.
\<close>

datatype cell = NA | CStr string | CInt int | CFloat rat | CBool bool

type_synonym dataframe = "(string \<times> cell list) list"

definition BASE_COLUMNS :: "string list" where
  "BASE_COLUMNS = [''pid'', ''encounterId'', ''referenceTimePoint'', ''eventTime'', ''exitTime'']"

datatype console =
    ValidationErrors
  | MissingInXLS "string set"
  | MissingInParquet "string set"
  | Proceeding
  | ValidationSuccessful
  | ValidationError exn
  | TransformationCompleted

fun cell_is_str :: "cell \<Rightarrow> bool" where
  "cell_is_str (CStr s) = True"
| "cell_is_str _ = False"

fun cell_str :: "cell \<Rightarrow> string" where
  "cell_str (CStr s) = s"
| "cell_str _ = []"

text \<open>
  \<^verbatim>\<open>if names: print(f"...{', '.join(names)}")\<close> for a set of names: nothing for the
  empty set, and \<^verbatim>\<open>join\<close> raises \<^verbatim>\<open>TypeError\<close> on a name that is not a string. The order
  in which a set is printed is not fixed, so the line is represented by the set.
\<close>

definition print_names :: "(string set \<Rightarrow> console) \<Rightarrow> cell set \<Rightarrow> exn + console list" where
  "print_names line names =
     (if names = {} then Inr []
      else if \<forall>c \<in> names. cell_is_str c then Inr [line (cell_str ` names)]
      else Inl TypeError)"

definition cols_to_check :: "string list \<Rightarrow> string list" where
  "cols_to_check parquet_columns = filter (\<lambda>col. col \<notin> set BASE_COLUMNS) parquet_columns"

definition missing_in_dict :: "string list \<Rightarrow> cell list \<Rightarrow> cell set" where
  "missing_in_dict parquet_columns dict_columns =
     set (map CStr (cols_to_check parquet_columns)) - set dict_columns"

definition missing_in_parquet :: "string list \<Rightarrow> cell list \<Rightarrow> cell set" where
  "missing_in_parquet parquet_columns dict_columns =
     set dict_columns - set (map CStr (cols_to_check parquet_columns))"

text \<open>
  The lines \<^verbatim>\<open>validate_dictionary\<close> prints. Its \<^verbatim>\<open>try\<close> block covers the whole body, so
  the lines printed before an exception stay and the two lines of the handler follow.
\<close>

definition validate_dictionary :: "string list \<Rightarrow> exn + cell list \<Rightarrow> console list" where
  "validate_dictionary parquet_columns dictionary =
     (case dictionary of
        Inl e \<Rightarrow> [ValidationError e, Proceeding]
      | Inr dict_columns \<Rightarrow>
          (let in_dict = missing_in_dict parquet_columns dict_columns;
               in_parquet = missing_in_parquet parquet_columns dict_columns
           in if in_dict \<noteq> {} \<or> in_parquet \<noteq> {} then
                (case print_names MissingInXLS in_dict of
                   Inl e \<Rightarrow> [ValidationErrors, ValidationError e, Proceeding]
                 | Inr l1 \<Rightarrow>
                     (case print_names MissingInParquet in_parquet of
                        Inl e \<Rightarrow> ValidationErrors # l1 @ [ValidationError e, Proceeding]
                      | Inr l2 \<Rightarrow> ValidationErrors # l1 @ l2 @ [Proceeding]))
              else [ValidationSuccessful]))"

text \<open>\<^verbatim>\<open>notna()\<close> and \<^verbatim>\<open>astype(int)\<close> on one cell.\<close>

fun notna :: "cell \<Rightarrow> bool" where
  "notna NA = False"
| "notna _ = True"

definition availability :: "cell \<Rightarrow> cell" where
  "availability c = CInt (if notna c then 1 else 0)"

text \<open>\<^verbatim>\<open>df[col]\<close> and \<^verbatim>\<open>df[col] = cells\<close>.\<close>

definition column :: "dataframe \<Rightarrow> string \<Rightarrow> exn + cell list" where
  "column df col = (case map_of df col of None \<Rightarrow> Inl KeyError | Some cells \<Rightarrow> Inr cells)"

fun assign :: "dataframe \<Rightarrow> string \<Rightarrow> cell list \<Rightarrow> dataframe" where
  "assign [] col cells = [(col, cells)]"
| "assign ((n, old) # df) col cells =
     (if n = col then (n, cells) # df else (n, old) # assign df col cells)"

text \<open>The loop over the column names of the frame.\<close>

fun encode_loop :: "dataframe \<Rightarrow> string list \<Rightarrow> exn + dataframe" where
  "encode_loop df [] = Inr df"
| "encode_loop df (col # cols) =
     (if col \<notin> set BASE_COLUMNS then
        (case column df col of
           Inl e \<Rightarrow> Inl e
         | Inr cells \<Rightarrow> encode_loop (assign df col (map availability cells)) cols)
      else encode_loop df cols)"

text \<open>
  \<^verbatim>\<open>transform_data\<close>: the dictionary argument is \<open>None\<close> when no dictionary path is given
  (or an empty one), else the outcome of reading the \<^verbatim>\<open>name\<close> column of its
  \<^verbatim>\<open>Variables\<close> sheet.
\<close>

definition transform_data ::
  "dataframe \<Rightarrow> (exn + cell list) option \<Rightarrow> console list \<times> (exn + dataframe)" where
  "transform_data df dictionary =
     (let printed = (case dictionary of
                       None \<Rightarrow> []
                     | Some d \<Rightarrow> validate_dictionary (map fst df) d)
      in (case encode_loop df (map fst df) of
            Inl e \<Rightarrow> (printed, Inl e)
          | Inr out \<Rightarrow> (printed @ [TransformationCompleted], Inr out)))"

section \<open>Format converter\<close>

text \<open>
  \<^verbatim>\<open>parquet_to_csv\<close> reads a frame and hands it to \<^verbatim>\<open>to_csv(output_file, index=False)\<close>.
  The writer is pandas' own; it is described here as its documentation describes it.
  The file holds a record with the column names, then one record for each row, each
  record a list of fields. A missing value is written as \<^verbatim>\<open>na_rep\<close>, by default the empty
  string; a string is written as it is; the text of a number or a boolean is left to
  the parameter \<open>render\<close>. The file is represented by its records: how the fields of a
  record are quoted and joined into a line is a function of the records.
\<close>

fun field_text :: "(cell \<Rightarrow> string) \<Rightarrow> cell \<Rightarrow> string" where
  "field_text render NA = []"
| "field_text render (CStr s) = s"
| "field_text render c = render c"

definition to_csv :: "(cell \<Rightarrow> string) \<Rightarrow> dataframe \<Rightarrow> string list list" where
  "to_csv render df =
     map fst df # transpose (map (\<lambda>col. map (field_text render) (snd col)) df)"

definition parquet_to_csv :: "(cell \<Rightarrow> string) \<Rightarrow> dataframe \<Rightarrow> string list list" where
  "parquet_to_csv render df = to_csv render df"

section \<open>Reference descriptions\<close>

text \<open>
  The rows the extractors are expected to build, written on the descriptor itself and
  free of exceptions, and the conditions on a descriptor under which they are built.
  These definitions describe; they are not taken from the code, and the theorems below
  compare the functions above with them.
\<close>

text \<open>The value of key \<open>k\<close> in a dictionary \<open>x\<close>, or \<open>d\<close>.\<close>

fun field :: "json \<Rightarrow> string \<Rightarrow> json \<Rightarrow> json" where
  "field (JObj kvs) k d = (case map_of kvs k of None \<Rightarrow> d | Some v \<Rightarrow> v)"
| "field _ k d = d"

fun has_field :: "json \<Rightarrow> string \<Rightarrow> bool" where
  "has_field (JObj kvs) k = (map_of kvs k \<noteq> None)"
| "has_field _ k = False"

fun is_dict :: "json \<Rightarrow> bool" where
  "is_dict (JObj kvs) = True"
| "is_dict _ = False"

fun is_str_list :: "json \<Rightarrow> bool" where
  "is_str_list (JList xs) = list_all is_str xs"
| "is_str_list _ = False"

fun is_dict_list :: "json \<Rightarrow> bool" where
  "is_dict_list (JList xs) = list_all is_dict xs"
| "is_dict_list _ = False"

fun items :: "json \<Rightarrow> json list" where
  "items (JList xs) = xs"
| "items _ = []"

text \<open>
  A feature descriptor as the variable extractor needs it: a dictionary whose
  \<^verbatim>\<open>generatedDescription\<close>, when present, is a list of strings.
\<close>

definition described_feature :: "json \<Rightarrow> bool" where
  "described_feature x = (is_dict x \<and> is_str_list (field x ''generatedDescription'' (JList [])))"

text \<open>
  The label as the specification words it: the description concatenated with the
  space-joined \<^verbatim>\<open>generatedDescription\<close>, trimmed.
\<close>

definition spec_label :: "string \<Rightarrow> string list \<Rightarrow> string" where
  "spec_label description generated = strip (description @ join_strings '' '' generated)"

text \<open>
  The label as the f-string builds it: the description, one space, the space-joined
  \<^verbatim>\<open>generatedDescription\<close>, the whole trimmed.
\<close>

definition expected_label :: "(json \<Rightarrow> string) \<Rightarrow> json \<Rightarrow> string" where
  "expected_label repr x =
     strip (format repr (field x ''description'' (JStr [])) @ '' ''
            @ join_strings '' '' (map the_str (items (field x ''generatedDescription'' (JList [])))))"

definition expected_variable :: "(json \<Rightarrow> string) \<Rightarrow> string \<Rightarrow> json \<Rightarrow> json \<Rightarrow> variable" where
  "expected_variable repr table_name entity_type x =
     \<lparr>var_table = table_name, var_name = field x ''name'' JNull,
      var_valueType = fst (determine_value_type x), var_entityType = entity_type,
      var_unit = [], var_label = expected_label repr x,
      var_script = ''$('' @ [CHR 0x27] @ format repr (field x ''name'' JNull) @ [CHR 0x27] @ '')''\<rparr>"

text \<open>
  A feature descriptor as the category extractor needs it: a dictionary whose
  \<^verbatim>\<open>dataType\<close>, when present, is a string and whose \<^verbatim>\<open>valueSet\<close>, when present, is a
  dictionary with a list of dictionaries as \<^verbatim>\<open>concept\<close>.
\<close>

definition coded_feature :: "json \<Rightarrow> bool" where
  "coded_feature x =
     (is_dict x \<and> is_str (field x ''dataType'' (JStr []))
      \<and> (has_field x ''valueSet'' \<longrightarrow>
           is_dict (field x ''valueSet'' JNull)
           \<and> is_dict_list (field (field x ''valueSet'' JNull) ''concept'' (JList []))))"

definition is_nominal :: "json \<Rightarrow> bool" where
  "is_nominal x = (upper_str (the_str (field x ''dataType'' (JStr []))) = ''NOMINAL'')"

definition concept_list :: "json \<Rightarrow> json list" where
  "concept_list x = items (field (field x ''valueSet'' JNull) ''concept'' (JList []))"

definition expected_category :: "string \<Rightarrow> json \<Rightarrow> json \<Rightarrow> category" where
  "expected_category table_name x c =
     \<lparr>cat_table = table_name, cat_variable = field x ''name'' JNull,
      cat_name = field c ''code'' (JStr []), cat_code = [], cat_missing = 0,
      cat_label = field c ''display'' (JStr [])\<rparr>"

definition expected_categories :: "string \<Rightarrow> json \<Rightarrow> category list" where
  "expected_categories table_name x =
     (if is_nominal x \<and> has_field x ''valueSet'' \<and> has_field x ''name''
      then map (expected_category table_name x) (concept_list x) else [])"

text \<open>The availability of a cell as the specification words it: 1 for a cell that is
  neither null nor empty.\<close>

definition spec_availability :: "cell \<Rightarrow> cell" where
  "spec_availability c = CInt (if c = NA \<or> c = CStr [] then 0 else 1)"

definition encode_column :: "string \<times> cell list \<Rightarrow> string \<times> cell list" where
  "encode_column col =
     (if fst col \<in> set BASE_COLUMNS then col else (fst col, map availability (snd col)))"

text \<open>What the variable extractor prints for one feature.\<close>

definition feature_events :: "json \<Rightarrow> event list" where
  "feature_events x =
     (if has_field x ''name'' then snd (determine_value_type x) else [MissingRequiredKey x])"

text \<open>
  A value for the parameter \<open>repr\<close> in examples whose names and descriptions are
  strings, where it is never applied.
\<close>

definition blank_repr :: "json \<Rightarrow> string" where
  "blank_repr v = []"

text \<open>
  The keys of the two sheets: the name of a variable row, the pair of variable and
  code of a category row (the code is written to the column headed \<^verbatim>\<open>name\<close>); and the
  names and codes of the descriptor they come from.
\<close>

definition variable_names :: "variable list \<Rightarrow> json list" where
  "variable_names rows = map var_name rows"

definition category_keys :: "category list \<Rightarrow> (json \<times> json) list" where
  "category_keys rows = map (\<lambda>r. (cat_variable r, cat_name r)) rows"

definition feature_names :: "json list \<Rightarrow> json list" where
  "feature_names xs = map (\<lambda>x. field x ''name'' JNull) (filter (\<lambda>x. has_field x ''name'') xs)"

definition concept_codes :: "json \<Rightarrow> json list" where
  "concept_codes x = map (\<lambda>c. field c ''code'' (JStr [])) (concept_list x)"



text \<open>
  A frame as pandas holds it: all columns have the same number of cells. A frame of
  text: every cell is a string. A value for the parameter \<open>render\<close> in examples without
  numbers, where it is never applied.
\<close>

definition rectangular :: "dataframe \<Rightarrow> bool" where
  "rectangular df = (\<forall>col \<in> set df. length (snd col) = length (snd (hd df)))"

definition text_only :: "dataframe \<Rightarrow> bool" where
  "text_only df = (\<forall>col \<in> set df. \<forall>c \<in> set (snd col). cell_is_str c)"

definition blank_text :: "cell \<Rightarrow> string" where
  "blank_text c = []"

section \<open>Basic facts\<close>

lemma andthen_simps [simp]:
  "andthen (Inl e) f = Inl e"
  "andthen (Inr v) f = f v"
  by (simp_all add: andthen_def)

lemma upper_str_Nil [simp]: "upper_str s = [] \<longleftrightarrow> s = []"
  by (simp add: upper_str_def)

lemma upper_str_literals:
  "upper_str ''NOMINAL'' = ''NOMINAL''" "upper_str ''NUMERIC'' = ''NUMERIC''"
  "upper_str ''BOOLEAN'' = ''BOOLEAN''" "upper_str ''DATETIME'' = ''DATETIME''"
  "upper_str ''ORDINAL'' = ''ORDINAL''"
  by (simp_all add: upper_str_def upper_char_def)

section \<open>Properties of the value-type resolver\<close>

lemma value_type_of_try:
  "fst (determine_value_type x) =
     (case determine_value_type_try x of Inl e \<Rightarrow> ''error'' | Inr v \<Rightarrow> v)"
  by (simp add: determine_value_type_def split: sum.splits)

lemmas value_type_defs =
  value_type_of_try determine_value_type_try_def nominal_value_type_def type_mapping_def

lemma value_type_range:
  "fst (determine_value_type x) \<in> {''text'', ''decimal'', ''boolean'', ''datetime'', ''error''}"
  by (simp add: value_type_defs andthen_def split: sum.splits option.splits)

lemma value_type_failure:
  "determine_value_type_try x = Inl e \<Longrightarrow>
     determine_value_type x = (''error'', [ValueTypeError e])"
  by (simp add: determine_value_type_def)

text \<open>
  A first concept without a \<^verbatim>\<open>code\<close> counts as one with the empty string as code.
\<close>

lemma nominal_missing_code_text:
  assumes "map_of f ''name'' = Some n"
    and "map_of f ''dataType'' = Some (JStr dt)"
    and "upper_str dt = ''NOMINAL''"
    and "map_of f ''valueSet'' = Some (JObj vs)"
    and "map_of vs ''concept'' = Some (JList (JObj c # cs))"
    and "map_of c ''code'' = None"
  shows "fst (determine_value_type (JObj f)) = ''text''"
  using assms by (simp add: value_type_defs)

text \<open>A feature without a \<^verbatim>\<open>name\<close> resolves to the sentinel whatever its \<^verbatim>\<open>dataType\<close>.\<close>

lemma unnamed_feature_error:
  "map_of f ''name'' = None \<Longrightarrow> fst (determine_value_type (JObj f)) = ''error''"
  by (simp add: value_type_defs)

text \<open>
  Claim C1. For every value \<open>x\<close> handed to the resolver the result is one of text,
  decimal, boolean, datetime and error, and an exception in the body is turned into the
  sentinel error (and printed), never raised. For a feature \<open>f\<close> that has its name, the
  rules hold in their order, the \<^verbatim>\<open>dataType\<close> being compared after upper-casing: a missing
  or empty \<^verbatim>\<open>dataType\<close> gives error; NOMINAL without \<^verbatim>\<open>valueSet\<close>, or with an absent or
  empty \<^verbatim>\<open>concept\<close>, gives error; otherwise the code of the first concept decides: a
  string gives text, a number (an instance of \<^verbatim>\<open>int\<close> or \<^verbatim>\<open>float\<close>, the booleans
  included) gives decimal, any other value (\<^verbatim>\<open>None\<close>, a list, a dictionary) gives error; NUMERIC gives decimal, BOOLEAN boolean, DATETIME datetime;
  any other \<^verbatim>\<open>dataType\<close>, a string or not, gives error.
\<close>

theorem determine_value_type_rules:
  assumes name: "map_of f ''name'' = Some n"
  shows "fst (determine_value_type x) \<in> {''text'', ''decimal'', ''boolean'', ''datetime'', ''error''}
    \<and> (\<forall>e. determine_value_type_try x = Inl e \<longrightarrow>
          determine_value_type x = (''error'', [ValueTypeError e]))
    \<and> (map_of f ''dataType'' = None \<or> map_of f ''dataType'' = Some (JStr []) \<longrightarrow>
          fst (determine_value_type (JObj f)) = ''error'')
    \<and> (map_of f ''dataType'' = Some (JStr dt) \<and> upper_str dt = ''NOMINAL'' \<longrightarrow>
         (map_of f ''valueSet'' = None \<longrightarrow> fst (determine_value_type (JObj f)) = ''error'')
       \<and> (map_of f ''valueSet'' = Some (JObj vs) \<longrightarrow>
            (map_of vs ''concept'' = None \<or> map_of vs ''concept'' = Some (JList []) \<longrightarrow>
               fst (determine_value_type (JObj f)) = ''error'')
          \<and> (map_of vs ''concept'' = Some (JList (JObj c # cs)) \<and> map_of c ''code'' = Some code \<longrightarrow>
               fst (determine_value_type (JObj f)) =
                 (if is_str code then ''text''
                  else if is_int_or_float code then ''decimal'' else ''error''))))
    \<and> (map_of f ''dataType'' = Some (JStr dt) \<and> upper_str dt = ''NUMERIC'' \<longrightarrow>
          fst (determine_value_type (JObj f)) = ''decimal'')
    \<and> (map_of f ''dataType'' = Some (JStr dt) \<and> upper_str dt = ''BOOLEAN'' \<longrightarrow>
          fst (determine_value_type (JObj f)) = ''boolean'')
    \<and> (map_of f ''dataType'' = Some (JStr dt) \<and> upper_str dt = ''DATETIME'' \<longrightarrow>
          fst (determine_value_type (JObj f)) = ''datetime'')
    \<and> (map_of f ''dataType'' = Some d
         \<and> (\<forall>s. d = JStr s \<longrightarrow>
               upper_str s \<notin> {''NOMINAL'', ''NUMERIC'', ''BOOLEAN'', ''DATETIME''}) \<longrightarrow>
          fst (determine_value_type (JObj f)) = ''error'')"
proof -
  have range:
    "fst (determine_value_type x) \<in> {''text'', ''decimal'', ''boolean'', ''datetime'', ''error''}"
    by (rule value_type_range)
  have failure: "\<forall>e. determine_value_type_try x = Inl e \<longrightarrow>
      determine_value_type x = (''error'', [ValueTypeError e])"
    by (simp add: value_type_failure)
  have missing: "map_of f ''dataType'' = None \<or> map_of f ''dataType'' = Some (JStr []) \<longrightarrow>
      fst (determine_value_type (JObj f)) = ''error''"
    using name by (auto simp add: value_type_defs)
  have nominal: "map_of f ''dataType'' = Some (JStr dt) \<and> upper_str dt = ''NOMINAL'' \<longrightarrow>
         (map_of f ''valueSet'' = None \<longrightarrow> fst (determine_value_type (JObj f)) = ''error'')
       \<and> (map_of f ''valueSet'' = Some (JObj vs) \<longrightarrow>
            (map_of vs ''concept'' = None \<or> map_of vs ''concept'' = Some (JList []) \<longrightarrow>
               fst (determine_value_type (JObj f)) = ''error'')
          \<and> (map_of vs ''concept'' = Some (JList (JObj c # cs)) \<and> map_of c ''code'' = Some code \<longrightarrow>
               fst (determine_value_type (JObj f)) =
                 (if is_str code then ''text''
                  else if is_int_or_float code then ''decimal'' else ''error'')))"
    using name by (auto simp add: value_type_defs)
  have numeric: "map_of f ''dataType'' = Some (JStr dt) \<and> upper_str dt = ''NUMERIC'' \<longrightarrow>
      fst (determine_value_type (JObj f)) = ''decimal''"
    using name by (auto simp add: value_type_defs)
  have boolean: "map_of f ''dataType'' = Some (JStr dt) \<and> upper_str dt = ''BOOLEAN'' \<longrightarrow>
      fst (determine_value_type (JObj f)) = ''boolean''"
    using name by (auto simp add: value_type_defs)
  have datetime: "map_of f ''dataType'' = Some (JStr dt) \<and> upper_str dt = ''DATETIME'' \<longrightarrow>
      fst (determine_value_type (JObj f)) = ''datetime''"
    using name by (auto simp add: value_type_defs)
  have other: "map_of f ''dataType'' = Some d
         \<and> (\<forall>s. d = JStr s \<longrightarrow>
               upper_str s \<notin> {''NOMINAL'', ''NUMERIC'', ''BOOLEAN'', ''DATETIME''}) \<longrightarrow>
      fst (determine_value_type (JObj f)) = ''error''"
    using name by (cases d) (simp_all add: value_type_defs)
  from range failure missing nominal numeric boolean datetime other show ?thesis
    by (intro conjI)
qed

theorem determine_value_type_rules_witness:
  "fst (determine_value_type (JObj [(''name'', JStr ''sex''), (''dataType'', JStr ''NOMINAL''),
      (''valueSet'', JObj [(''concept'', JList [JObj [(''code'', JStr ''5'')]])])])) = ''text''
   \<and> fst (determine_value_type (JObj [(''name'', JStr ''sex''), (''dataType'', JStr ''NOMINAL''),
      (''valueSet'', JObj [(''concept'', JList [JObj [(''code'', JInt 5)]])])])) = ''decimal''
   \<and> fst (determine_value_type (JObj [(''name'', JStr ''sex''), (''dataType'', JStr ''NOMINAL''),
      (''valueSet'', JObj [(''concept'', JList [JObj [(''code'', JNull)]])])])) = ''error''
   \<and> fst (determine_value_type (JObj [(''name'', JStr ''sex''), (''dataType'', JStr ''NOMINAL''),
      (''valueSet'', JObj [(''concept'', JList [])])])) = ''error''
   \<and> fst (determine_value_type (JObj [(''name'', JStr ''sex''), (''dataType'', JStr ''NOMINAL'')]))
       = ''error''
   \<and> fst (determine_value_type (JObj [(''name'', JStr ''age''), (''dataType'', JStr ''NUMERIC'')]))
       = ''decimal''
   \<and> fst (determine_value_type (JObj [(''name'', JStr ''ok''), (''dataType'', JStr ''BOOLEAN'')]))
       = ''boolean''
   \<and> fst (determine_value_type (JObj [(''name'', JStr ''at''), (''dataType'', JStr ''DATETIME'')]))
       = ''datetime''
   \<and> fst (determine_value_type (JObj [(''name'', JStr ''at''), (''dataType'', JStr ''ORDINAL'')]))
       = ''error''
   \<and> fst (determine_value_type (JObj [(''name'', JStr ''at''), (''dataType'', JStr [])])) = ''error''
   \<and> fst (determine_value_type (JObj [(''name'', JStr ''at'')])) = ''error''"
  using
    determine_value_type_rules [where n = "JStr ''sex''" and dt = "''NOMINAL''" and cs = "[]"
      and f = "[(''name'', JStr ''sex''), (''dataType'', JStr ''NOMINAL''),
                (''valueSet'', JObj [(''concept'', JList [JObj [(''code'', JStr ''5'')]])])]"
      and vs = "[(''concept'', JList [JObj [(''code'', JStr ''5'')]])]"
      and c = "[(''code'', JStr ''5'')]" and code = "JStr ''5''"]
    determine_value_type_rules [where n = "JStr ''sex''" and dt = "''NOMINAL''" and cs = "[]"
      and f = "[(''name'', JStr ''sex''), (''dataType'', JStr ''NOMINAL''),
                (''valueSet'', JObj [(''concept'', JList [JObj [(''code'', JInt 5)]])])]"
      and vs = "[(''concept'', JList [JObj [(''code'', JInt 5)]])]"
      and c = "[(''code'', JInt 5)]" and code = "JInt 5"]
    determine_value_type_rules [where n = "JStr ''sex''" and dt = "''NOMINAL''" and cs = "[]"
      and f = "[(''name'', JStr ''sex''), (''dataType'', JStr ''NOMINAL''),
                (''valueSet'', JObj [(''concept'', JList [JObj [(''code'', JNull)]])])]"
      and vs = "[(''concept'', JList [JObj [(''code'', JNull)]])]"
      and c = "[(''code'', JNull)]" and code = "JNull"]
    determine_value_type_rules [where n = "JStr ''sex''" and dt = "''NOMINAL''"
      and f = "[(''name'', JStr ''sex''), (''dataType'', JStr ''NOMINAL''),
                (''valueSet'', JObj [(''concept'', JList [])])]"
      and vs = "[(''concept'', JList [])]"]
    determine_value_type_rules [where n = "JStr ''sex''" and dt = "''NOMINAL''"
      and f = "[(''name'', JStr ''sex''), (''dataType'', JStr ''NOMINAL'')]"]
    determine_value_type_rules [where n = "JStr ''age''" and dt = "''NUMERIC''"
      and f = "[(''name'', JStr ''age''), (''dataType'', JStr ''NUMERIC'')]"]
    determine_value_type_rules [where n = "JStr ''ok''" and dt = "''BOOLEAN''"
      and f = "[(''name'', JStr ''ok''), (''dataType'', JStr ''BOOLEAN'')]"]
    determine_value_type_rules [where n = "JStr ''at''" and dt = "''DATETIME''"
      and f = "[(''name'', JStr ''at''), (''dataType'', JStr ''DATETIME'')]"]
    determine_value_type_rules [where n = "JStr ''at''" and d = "JStr ''ORDINAL''"
      and f = "[(''name'', JStr ''at''), (''dataType'', JStr ''ORDINAL'')]"]
    determine_value_type_rules [where n = "JStr ''at''"
      and f = "[(''name'', JStr ''at''), (''dataType'', JStr [])]"]
    determine_value_type_rules [where n = "JStr ''at''"
      and f = "[(''name'', JStr ''at'')]"]
  by (simp add: upper_str_literals)

text \<open>
  Claim C9. A NOMINAL feature whose first concept has a boolean code resolves to decimal,
  and nothing is printed: the test for a number is \<^verbatim>\<open>isinstance(code, (int, float))\<close> and
  a boolean is an instance of \<^verbatim>\<open>int\<close>.
\<close>

theorem nominal_boolean_code_decimal:
  assumes "map_of f ''name'' = Some n"
    and "map_of f ''dataType'' = Some (JStr dt)"
    and "upper_str dt = ''NOMINAL''"
    and "map_of f ''valueSet'' = Some (JObj vs)"
    and "map_of vs ''concept'' = Some (JList (JObj c # cs))"
    and "map_of c ''code'' = Some (JBool b)"
  shows "determine_value_type (JObj f) = (''decimal'', [])"
  using assms
  by (simp add: determine_value_type_def determine_value_type_try_def nominal_value_type_def)

theorem nominal_boolean_code_decimal_witness:
  "determine_value_type
     (JObj [(''name'', JStr ''smoker''), (''dataType'', JStr ''NOMINAL''),
            (''valueSet'', JObj [(''concept'',
               JList [JObj [(''code'', JBool True), (''display'', JStr ''yes'')],
                      JObj [(''code'', JBool False), (''display'', JStr ''no'')]])])])
   = (''decimal'', [])"
  using nominal_boolean_code_decimal [where n = "JStr ''smoker''" and dt = "''NOMINAL''"
      and b = True
      and f = "[(''name'', JStr ''smoker''), (''dataType'', JStr ''NOMINAL''),
                (''valueSet'', JObj [(''concept'',
                   JList [JObj [(''code'', JBool True), (''display'', JStr ''yes'')],
                          JObj [(''code'', JBool False), (''display'', JStr ''no'')]])])]"
      and vs = "[(''concept'',
                   JList [JObj [(''code'', JBool True), (''display'', JStr ''yes'')],
                          JObj [(''code'', JBool False), (''display'', JStr ''no'')]])]"
      and c = "[(''code'', JBool True), (''display'', JStr ''yes'')]"
      and cs = "[JObj [(''code'', JBool False), (''display'', JStr ''no'')]]"]
  by (simp add: upper_str_literals)

section \<open>Letter case of the data type\<close>

lemma concepts_loop_feature_name:
  assumes "getitem x ''name'' = getitem y ''name''" and "get x ''name'' JNull = get y ''name'' JNull"
  shows "concepts_loop t x cs = concepts_loop t y cs"
  using assms by (induction cs) (simp_all add: concept_row_def cong: sum.case_cong if_cong)

lemma categories_loop_feature:
  assumes "feature_categories t x = feature_categories t y"
  shows "categories_loop t (pre @ x # post) = categories_loop t (pre @ y # post)"
  using assms by (induction pre) simp_all

text \<open>
  Claim C10. The \<^verbatim>\<open>dataType\<close> is upper-cased before it is compared. Let the feature \<open>g\<close>
  be the feature \<open>f\<close> with the \<^verbatim>\<open>dataType\<close> string replaced by one that has the same upper
  case (so by any spelling of \<^verbatim>\<open>NOMINAL\<close>, \<^verbatim>\<open>NUMERIC\<close>, \<^verbatim>\<open>BOOLEAN\<close> or \<^verbatim>\<open>DATETIME\<close> in
  other letter case). Then the resolver gives \<open>g\<close> and \<open>f\<close> the same value type, and the
  category extractor gives the same result for two descriptors whose feature lists
  differ only by having \<open>g\<close> in the place of \<open>f\<close>.
\<close>

theorem data_type_case_insensitive:
  assumes dt: "map_of f ''dataType'' = Some (JStr dt)"
    and g: "map_of g = (map_of f)(''dataType'' \<mapsto> JStr dt')"
    and same: "upper_str dt' = upper_str dt"
    and e: "map_of e ''features'' = Some (JList (pre @ JObj f # post))"
    and e': "map_of e' ''features'' = Some (JList (pre @ JObj g # post))"
  shows "determine_value_type (JObj g) = determine_value_type (JObj f)
       \<and> extract_categories (JObj e') table_name = extract_categories (JObj e) table_name"
proof -
  have g_name: "map_of g ''name'' = map_of f ''name''"
    and g_vs: "map_of g ''valueSet'' = map_of f ''valueSet''"
    and g_dt: "map_of g ''dataType'' = Some (JStr dt')"
    using g by simp_all
  have "determine_value_type_try (JObj g) = determine_value_type_try (JObj f)"
    using dt g_name g_vs g_dt same
    by (simp add: determine_value_type_try_def nominal_value_type_def)
  then have resolver: "determine_value_type (JObj g) = determine_value_type (JObj f)"
    by (simp add: determine_value_type_def)
  have "nominal_concepts (JObj g) = nominal_concepts (JObj f)"
    using dt g_vs g_dt same by (simp add: nominal_concepts_def)
  moreover have "concepts_loop table_name (JObj g) cs = concepts_loop table_name (JObj f) cs" for cs
    by (rule concepts_loop_feature_name) (simp_all add: g_name)
  ultimately have "feature_categories table_name (JObj g) = feature_categories table_name (JObj f)"
    by (simp add: feature_categories_def cong: sum.case_cong)
  then have "categories_loop table_name (pre @ JObj g # post)
      = categories_loop table_name (pre @ JObj f # post)"
    by (rule categories_loop_feature)
  then have "extract_categories (JObj e') table_name = extract_categories (JObj e) table_name"
    using e e' by (simp add: extract_categories_def)
  with resolver show ?thesis by simp
qed

lemma upper_str_mixed:
  "upper_str ''nOmiNal'' = ''NOMINAL''" "upper_str ''Numeric'' = ''NUMERIC''"
  "upper_str ''boolean'' = ''BOOLEAN''" "upper_str ''dateTime'' = ''DATETIME''"
  by (simp_all add: upper_str_def upper_char_def)

lemma value_type_examples:
  "determine_value_type (JObj [(''name'', JStr ''age''), (''dataType'', JStr ''NUMERIC'')]) = (''decimal'', [])"
  "determine_value_type (JObj [(''name'', JStr ''ok''), (''dataType'', JStr ''BOOLEAN'')]) = (''boolean'', [])"
  "determine_value_type (JObj [(''name'', JStr ''at''), (''dataType'', JStr ''DATETIME'')]) = (''datetime'', [])"
  "determine_value_type (JObj [(''name'', JStr ''sex''), (''dataType'', JStr ''NOMINAL''),
     (''valueSet'', JObj [(''concept'', JList [JObj [(''code'', JStr ''M''), (''display'', JStr ''Male'')]])])])
   = (''text'', [])"
  by (simp_all add: determine_value_type_def determine_value_type_try_def nominal_value_type_def
      type_mapping_def upper_str_literals)

lemma categories_example:
  "extract_categories (JObj [(''features'', JList [JObj [(''name'', JStr ''sex''), (''dataType'', JStr ''NOMINAL''),
     (''valueSet'', JObj [(''concept'', JList [JObj [(''code'', JStr ''M''), (''display'', JStr ''Male'')]])])]])]) ''demo''
   = ([], Inr [\<lparr>cat_table = ''demo'', cat_variable = JStr ''sex'', cat_name = JStr ''M'', cat_code = [],
                 cat_missing = 0, cat_label = JStr ''Male''\<rparr>])"
  by (simp add: extract_categories_def feature_categories_def nominal_concepts_def concept_row_def
      upper_str_literals)

theorem data_type_case_insensitive_witness:
  "determine_value_type (JObj [(''name'', JStr ''age''), (''dataType'', JStr ''Numeric'')]) = (''decimal'', [])
   \<and> determine_value_type (JObj [(''name'', JStr ''ok''), (''dataType'', JStr ''boolean'')]) = (''boolean'', [])
   \<and> determine_value_type (JObj [(''name'', JStr ''at''), (''dataType'', JStr ''dateTime'')]) = (''datetime'', [])
   \<and> determine_value_type (JObj [(''name'', JStr ''sex''), (''dataType'', JStr ''nOmiNal''),
     (''valueSet'', JObj [(''concept'', JList [JObj [(''code'', JStr ''M''), (''display'', JStr ''Male'')]])])])
     = (''text'', [])
   \<and> extract_categories (JObj [(''features'', JList [JObj [(''name'', JStr ''sex''), (''dataType'', JStr ''nOmiNal''),
     (''valueSet'', JObj [(''concept'', JList [JObj [(''code'', JStr ''M''), (''display'', JStr ''Male'')]])])]])]) ''demo''
   = ([], Inr [\<lparr>cat_table = ''demo'', cat_variable = JStr ''sex'', cat_name = JStr ''M'', cat_code = [],
                 cat_missing = 0, cat_label = JStr ''Male''\<rparr>])"
  using
    data_type_case_insensitive [where dt = "''NUMERIC''" and dt' = "''Numeric''" and pre = "[]" and post = "[]"
      and f = "[(''name'', JStr ''age''), (''dataType'', JStr ''NUMERIC'')]"
      and g = "[(''name'', JStr ''age''), (''dataType'', JStr ''Numeric'')]"
      and e = "[(''features'', JList [JObj [(''name'', JStr ''age''), (''dataType'', JStr ''NUMERIC'')]])]"
      and e' = "[(''features'', JList [JObj [(''name'', JStr ''age''), (''dataType'', JStr ''Numeric'')]])]"]
    data_type_case_insensitive [where dt = "''BOOLEAN''" and dt' = "''boolean''" and pre = "[]" and post = "[]"
      and f = "[(''name'', JStr ''ok''), (''dataType'', JStr ''BOOLEAN'')]"
      and g = "[(''name'', JStr ''ok''), (''dataType'', JStr ''boolean'')]"
      and e = "[(''features'', JList [JObj [(''name'', JStr ''ok''), (''dataType'', JStr ''BOOLEAN'')]])]"
      and e' = "[(''features'', JList [JObj [(''name'', JStr ''ok''), (''dataType'', JStr ''boolean'')]])]"]
    data_type_case_insensitive [where dt = "''DATETIME''" and dt' = "''dateTime''" and pre = "[]" and post = "[]"
      and f = "[(''name'', JStr ''at''), (''dataType'', JStr ''DATETIME'')]"
      and g = "[(''name'', JStr ''at''), (''dataType'', JStr ''dateTime'')]"
      and e = "[(''features'', JList [JObj [(''name'', JStr ''at''), (''dataType'', JStr ''DATETIME'')]])]"
      and e' = "[(''features'', JList [JObj [(''name'', JStr ''at''), (''dataType'', JStr ''dateTime'')]])]"]
    data_type_case_insensitive [where dt = "''NOMINAL''" and dt' = "''nOmiNal''" and pre = "[]" and post = "[]"
      and table_name = "''demo''"
      and f = "[(''name'', JStr ''sex''), (''dataType'', JStr ''NOMINAL''),
     (''valueSet'', JObj [(''concept'', JList [JObj [(''code'', JStr ''M''), (''display'', JStr ''Male'')]])])]"
      and g = "[(''name'', JStr ''sex''), (''dataType'', JStr ''nOmiNal''),
     (''valueSet'', JObj [(''concept'', JList [JObj [(''code'', JStr ''M''), (''display'', JStr ''Male'')]])])]"
      and e = "[(''features'', JList [JObj [(''name'', JStr ''sex''), (''dataType'', JStr ''NOMINAL''),
     (''valueSet'', JObj [(''concept'', JList [JObj [(''code'', JStr ''M''), (''display'', JStr ''Male'')]])])]])]"
      and e' = "[(''features'', JList [JObj [(''name'', JStr ''sex''), (''dataType'', JStr ''nOmiNal''),
     (''valueSet'', JObj [(''concept'', JList [JObj [(''code'', JStr ''M''), (''display'', JStr ''Male'')]])])]])]"]
  by (simp add: upper_str_mixed upper_str_literals value_type_examples categories_example fun_eq_iff)

section \<open>Properties of the entity-type resolver\<close>





lemma py_eq_str [simp]: "py_eq v (JStr s) \<longleftrightarrow> v = JStr s"
  by (cases v) auto


















section \<open>Properties of the variable extractor\<close>

lemma join_str_list:
  "is_str_list g \<Longrightarrow> join sep g = Inr (join_strings sep (map the_str (items g)))"
  by (cases g) (simp_all add: join_def)

lemma described_feature_row:
  assumes "described_feature x"
  shows "variable_row repr t ent x =
     (if has_field x ''name''
      then (snd (determine_value_type x), Inr (expected_variable repr t ent x))
      else ([], Inl KeyError))"
proof -
  from assms obtain f where x: "x = JObj f"
    by (cases x) (simp_all add: described_feature_def)
  from assms have g: "is_str_list (field x ''generatedDescription'' (JList []))"
    by (simp add: described_feature_def)
  show ?thesis
  proof (cases "map_of f ''name''")
    case None
    with x show ?thesis by (simp add: variable_row_def)
  next
    case (Some n)
    moreover have "get x ''generatedDescription'' (JList []) = Inr (field x ''generatedDescription'' (JList []))"
      and "get x ''description'' (JStr []) = Inr (field x ''description'' (JStr []))"
      using x by (simp_all split: option.splits)
    ultimately show ?thesis
      using x join_str_list [OF g, of "'' ''"]
      by (simp add: variable_row_def expected_variable_def expected_label_def split: prod.splits)
  qed
qed

lemma variables_loop_described:
  assumes "\<forall>x \<in> set xs. described_feature x"
  shows "variables_loop repr t ent xs =
     (concat (map feature_events xs),
      Inr (map (expected_variable repr t ent) (filter (\<lambda>x. has_field x ''name'') xs)))"
  using assms by (induction xs) (simp_all add: described_feature_row feature_events_def)

text \<open>
  Claim C4 words the label as the description concatenated with the space-joined
  \<^verbatim>\<open>generatedDescription\<close>, trimmed. The f-string puts a space between the two: for the
  description \<^verbatim>\<open>Age\<close> and the list \<^verbatim>\<open>["in", "years"]\<close> the label of the row is
  \<^verbatim>\<open>Age in years\<close>, the worded label \<^verbatim>\<open>Agein years\<close>.
\<close>

theorem extract_variables_label_counterexample:
  "snd (extract_variables blank_repr
      (JObj [(''features'', JList [JObj [(''name'', JStr ''age''), (''dataType'', JStr ''NUMERIC''),
                (''description'', JStr ''Age''),
                (''generatedDescription'', JList [JStr ''in'', JStr ''years''])]]),
             (''outcomes'', JList [])])
      ''demo'' (JStr ''participant''))
   = Inr [\<lparr>var_table = ''demo'', var_name = JStr ''age'', var_valueType = ''decimal'',
           var_entityType = JStr ''participant'', var_unit = [], var_label = ''Age in years'',
           var_script = ''$('age')''\<rparr>]
   \<and> spec_label ''Age'' [''in'', ''years''] = ''Agein years''"
  by (simp add: extract_variables_def variable_row_def join_def determine_value_type_def
      determine_value_type_try_def type_mapping_def upper_str_literals strip_def is_space_def
      spec_label_def)

text \<open>
  Claim C4, amended. Let \<^verbatim>\<open>features\<close> and \<^verbatim>\<open>outcomes\<close> be lists (or absent) whose items are
  dictionaries with, when present, a list of strings as \<^verbatim>\<open>generatedDescription\<close>. The
  extractor returns one row for each item of \<^verbatim>\<open>features\<close> followed by \<^verbatim>\<open>outcomes\<close> that has
  a \<^verbatim>\<open>name\<close>, in the order of the input; the row is the table name, the name, the
  resolved value type, the entity type, the empty unit, the label and the script
  \<^verbatim>\<open>$('name')\<close>, where the label is the description, one space and the space-joined
  \<^verbatim>\<open>generatedDescription\<close>, the whole trimmed. An item without \<^verbatim>\<open>name\<close> gives no row and
  one printed error, and the other items still give their rows.
\<close>

theorem extract_variables_rows:
  assumes features: "field (JObj e) ''features'' (JList []) = JList fs"
    and outcomes: "field (JObj e) ''outcomes'' (JList []) = JList os"
    and described: "\<forall>x \<in> set (fs @ os). described_feature x"
  shows "extract_variables repr (JObj e) table_name entity_type =
     (concat (map feature_events (fs @ os)),
      Inr (map (expected_variable repr table_name entity_type)
             (filter (\<lambda>x. has_field x ''name'') (fs @ os))))"
proof -
  have "get (JObj e) ''features'' (JList []) = Inr (JList fs)"
    and "get (JObj e) ''outcomes'' (JList []) = Inr (JList os)"
    using features outcomes by (simp_all split: option.splits)
  then show ?thesis
    using variables_loop_described [OF described, of repr table_name entity_type]
    by (simp add: extract_variables_def)
qed

theorem extract_variables_rows_witness:
  "extract_variables blank_repr
      (JObj [(''features'', JList [JObj [(''name'', JStr ''age''), (''dataType'', JStr ''NUMERIC'')]]),
             (''outcomes'', JList [])])
      ''demo'' (JStr ''participant'')
   = ([], Inr [\<lparr>var_table = ''demo'', var_name = JStr ''age'', var_valueType = ''decimal'',
                 var_entityType = JStr ''participant'', var_unit = [], var_label = [],
                 var_script = ''$('age')''\<rparr>])
   \<and> extract_variables blank_repr
      (JObj [(''features'', JList [JObj [(''dataType'', JStr ''NUMERIC'')],
                                   JObj [(''name'', JStr ''age''), (''dataType'', JStr ''NUMERIC''),
                                         (''description'', JStr ''Age''),
                                         (''generatedDescription'', JList [JStr ''in'', JStr ''years''])]]),
             (''outcomes'', JList [JObj [(''name'', JStr ''died''), (''dataType'', JStr ''BOOLEAN'')]])])
      ''demo'' (JStr ''participant'')
   = ([MissingRequiredKey (JObj [(''dataType'', JStr ''NUMERIC'')])],
      Inr [\<lparr>var_table = ''demo'', var_name = JStr ''age'', var_valueType = ''decimal'',
             var_entityType = JStr ''participant'', var_unit = [], var_label = ''Age in years'',
             var_script = ''$('age')''\<rparr>,
           \<lparr>var_table = ''demo'', var_name = JStr ''died'', var_valueType = ''boolean'',
             var_entityType = JStr ''participant'', var_unit = [], var_label = [],
             var_script = ''$('died')''\<rparr>])"
  using
    extract_variables_rows [where repr = blank_repr and table_name = "''demo''"
      and entity_type = "JStr ''participant''"
      and e = "[(''features'', JList [JObj [(''name'', JStr ''age''), (''dataType'', JStr ''NUMERIC'')]]),
                (''outcomes'', JList [])]"
      and fs = "[JObj [(''name'', JStr ''age''), (''dataType'', JStr ''NUMERIC'')]]" and os = "[]"]
    extract_variables_rows [where repr = blank_repr and table_name = "''demo''"
      and entity_type = "JStr ''participant''"
      and e = "[(''features'', JList [JObj [(''dataType'', JStr ''NUMERIC'')],
                                   JObj [(''name'', JStr ''age''), (''dataType'', JStr ''NUMERIC''),
                                         (''description'', JStr ''Age''),
                                         (''generatedDescription'', JList [JStr ''in'', JStr ''years''])]]),
             (''outcomes'', JList [JObj [(''name'', JStr ''died''), (''dataType'', JStr ''BOOLEAN'')]])]"
      and fs = "[JObj [(''dataType'', JStr ''NUMERIC'')],
                                   JObj [(''name'', JStr ''age''), (''dataType'', JStr ''NUMERIC''),
                                         (''description'', JStr ''Age''),
                                         (''generatedDescription'', JList [JStr ''in'', JStr ''years''])]]"
      and os = "[JObj [(''name'', JStr ''died''), (''dataType'', JStr ''BOOLEAN'')]]"]
  by (simp add: described_feature_def feature_events_def expected_variable_def expected_label_def
      determine_value_type_def determine_value_type_try_def type_mapping_def upper_str_literals
      strip_def is_space_def)

section \<open>Properties of the category extractor\<close>

lemma concept_row_Inr:
  "concept_row t x c = Inr row \<Longrightarrow> has_field x ''name'' \<and> is_dict c \<and> row = expected_category t x c"
  by (cases x; cases c)
     (auto simp add: concept_row_def expected_category_def andthen_def split: option.splits sum.splits)

lemma concept_row_KeyError:
  "concept_row t x c = Inl KeyError \<Longrightarrow> \<not> has_field x ''name''"
  by (cases x; cases c)
     (auto simp add: concept_row_def andthen_def split: option.splits sum.splits)

lemma concept_row_dict:
  "has_field x ''name'' \<Longrightarrow> is_dict c \<Longrightarrow> concept_row t x c = Inr (expected_category t x c)"
  by (cases x; cases c)
     (auto simp add: concept_row_def expected_category_def split: option.splits)

lemma concept_row_unnamed:
  "is_dict x \<Longrightarrow> \<not> has_field x ''name'' \<Longrightarrow> concept_row t x c = Inl KeyError"
  by (cases x) (auto simp add: concept_row_def)

lemma concepts_loop_Inr:
  assumes "concepts_loop t x cs = (printed, Inr rows)"
  shows "rows = (if has_field x ''name'' then map (expected_category t x) cs else [])
       \<and> (has_field x ''name'' \<longrightarrow> list_all is_dict cs)"
  using assms
proof (induction cs arbitrary: printed rows)
  case Nil
  then show ?case by simp
next
  case (Cons c cs)
  show ?case
  proof (cases "concept_row t x c")
    case (Inl err)
    with Cons.prems have k: "err = KeyError"
      by (auto split: if_splits)
    with Inl have "\<not> has_field x ''name''"
      by (simp add: concept_row_KeyError)
    moreover from Cons.prems Inl k obtain p where "concepts_loop t x cs = (p, Inr rows)"
      by (auto split: sum.splits prod.splits)
    ultimately show ?thesis
      using Cons.IH by auto
  next
    case (Inr row)
    with Cons.prems obtain p rest where "concepts_loop t x cs = (p, Inr rest)" and "rows = row # rest"
      by (auto split: sum.splits prod.splits)
    with Cons.IH [of p rest] concept_row_Inr [OF Inr] show ?thesis
      by auto
  qed
qed

lemma iter_dicts:
  assumes "iter v = Inr cs" and "list_all is_dict cs"
  shows "cs = items v"
proof (cases v)
  case (JStr s)
  with assms show ?thesis by (cases s) auto
next
  case (JObj kvs)
  with assms show ?thesis by (cases kvs) auto
qed (use assms in simp_all)

lemma nominal_concepts_Inr:
  assumes "nominal_concepts x = Inr cs"
  shows "if is_nominal x \<and> has_field x ''valueSet''
         then iter (field (field x ''valueSet'' JNull) ''concept'' (JList [])) = Inr cs
         else cs = []"
proof -
  from assms obtain f where x: "x = JObj f"
    by (cases x) (simp_all add: nominal_concepts_def)
  from assms x obtain dt where dt: "field x ''dataType'' (JStr []) = JStr dt"
    by (cases "field x ''dataType'' (JStr [])")
       (auto simp add: nominal_concepts_def split: option.splits)
  then have up: "andthen (get x ''dataType'' (JStr [])) upper = Inr (upper_str dt)"
    using x by (auto split: option.splits)
  show ?thesis
  proof (cases "is_nominal x \<and> has_field x ''valueSet''")
    case False
    with assms x dt show ?thesis
      by (auto simp add: nominal_concepts_def is_nominal_def split: option.splits if_splits)
  next
    case True
    then obtain v where v: "map_of f ''valueSet'' = Some v"
      using x by auto
    with assms x dt True obtain vs where "v = JObj vs"
      by (cases v) (auto simp add: nominal_concepts_def is_nominal_def split: option.splits if_splits)
    with assms x dt True v show ?thesis
      by (auto simp add: nominal_concepts_def is_nominal_def split: option.splits if_splits)
  qed
qed

lemma feature_categories_dict:
  "feature_categories t x = (printed, Inr rows) \<Longrightarrow> is_dict x"
  by (cases x) (simp_all add: feature_categories_def nominal_concepts_def)

lemma feature_categories_Inr:
  assumes "feature_categories t x = (printed, Inr rows)"
  shows "rows = expected_categories t x"
proof -
  from assms obtain cs where cs: "nominal_concepts x = Inr cs"
    and loop: "concepts_loop t x cs = (printed, Inr rows)"
    by (auto simp add: feature_categories_def split: sum.splits)
  note rows = concepts_loop_Inr [OF loop]
  show ?thesis
  proof (cases "is_nominal x \<and> has_field x ''valueSet'' \<and> has_field x ''name''")
    case True
    with nominal_concepts_Inr [OF cs] rows
    have "cs = concept_list x"
      by (auto simp add: concept_list_def dest: iter_dicts)
    with True rows show ?thesis by (simp add: expected_categories_def)
  next
    case False
    with nominal_concepts_Inr [OF cs] rows show ?thesis
      by (auto simp add: expected_categories_def split: if_splits)
  qed
qed

lemma categories_loop_Inr:
  "categories_loop t xs = (printed, Inr rows) \<Longrightarrow>
     rows = concat (map (expected_categories t) xs) \<and> list_all is_dict xs"
proof (induction xs arbitrary: printed rows)
  case Nil
  then show ?case by simp
next
  case (Cons x xs)
  then obtain p1 r1 p2 r2 where "feature_categories t x = (p1, Inr r1)"
    and "categories_loop t xs = (p2, Inr r2)" and "rows = r1 @ r2"
    by (auto split: sum.splits prod.splits)
  with Cons.IH [of p2 r2] feature_categories_Inr [of t x p1 r1]
    feature_categories_dict [of t x p1 r1]
  show ?case by simp
qed

lemma extract_categories_Inr:
  assumes "snd (extract_categories entries t) = Inr rows"
  shows "rows = concat (map (expected_categories t) (items (field entries ''features'' (JList []))))"
proof -
  from assms obtain xs p where xs: "andthen (get entries ''features'' (JList [])) iter = Inr xs"
    and loop: "categories_loop t xs = (p, Inr rows)"
    by (auto simp add: extract_categories_def split: sum.splits prod.splits)
  from xs obtain v where v: "get entries ''features'' (JList []) = Inr v" and it: "iter v = Inr xs"
    by (auto simp add: andthen_def split: sum.splits)
  from v have "v = field entries ''features'' (JList [])"
    by (cases entries) (auto split: option.splits)
  with it categories_loop_Inr [OF loop] show ?thesis
    by (auto dest: iter_dicts)
qed

lemma concepts_loop_dicts:
  assumes "is_dict x" and "list_all is_dict cs"
  shows "\<exists>printed rows. concepts_loop t x cs = (printed, Inr rows)"
  using assms(2)
proof (induction cs)
  case Nil
  then show ?case by simp
next
  case (Cons c cs)
  then obtain p rows where loop: "concepts_loop t x cs = (p, Inr rows)" and c: "is_dict c"
    by auto
  show ?case
  proof (cases "has_field x ''name''")
    case True
    with c loop show ?thesis by (simp add: concept_row_dict)
  next
    case False
    moreover from assms(1) have "\<exists>n. get x ''name'' JNull = Inr n"
      by (cases x) (auto split: option.splits)
    ultimately show ?thesis
      using assms(1) loop by (auto simp add: concept_row_unnamed)
  qed
qed

lemma coded_nominal_concepts:
  assumes "coded_feature x"
  shows "\<exists>cs. nominal_concepts x = Inr cs \<and> list_all is_dict cs"
proof -
  from assms obtain f where x: "x = JObj f"
    by (cases x) (simp_all add: coded_feature_def)
  from assms obtain dt where dt: "field x ''dataType'' (JStr []) = JStr dt"
    by (cases "field x ''dataType'' (JStr [])") (simp_all add: coded_feature_def)
  show ?thesis
  proof (cases "map_of f ''valueSet''")
    case None
    with x dt show ?thesis
      by (auto simp add: nominal_concepts_def split: option.splits)
  next
    case (Some v)
    with assms x obtain vs where v: "v = JObj vs"
      by (cases v) (simp_all add: coded_feature_def)
    with assms x Some obtain cs
      where cs: "field (JObj vs) ''concept'' (JList []) = JList cs" and "list_all is_dict cs"
      by (cases "field (JObj vs) ''concept'' (JList [])") (simp_all add: coded_feature_def)
    with x dt Some v show ?thesis
      by (auto simp add: nominal_concepts_def split: option.splits)
  qed
qed

lemma coded_feature_categories:
  assumes "coded_feature x"
  shows "\<exists>printed. feature_categories t x = (printed, Inr (expected_categories t x))"
proof -
  from assms have "is_dict x" by (simp add: coded_feature_def)
  moreover from coded_nominal_concepts [OF assms]
  obtain cs where cs: "nominal_concepts x = Inr cs" and "list_all is_dict cs"
    by blast
  ultimately obtain printed rows where "concepts_loop t x cs = (printed, Inr rows)"
    using concepts_loop_dicts [of x cs t] by blast
  with cs have "feature_categories t x = (printed, Inr rows)"
    by (simp add: feature_categories_def)
  with feature_categories_Inr [of t x printed rows] show ?thesis by simp
qed

lemma coded_categories_loop:
  assumes "\<forall>x \<in> set xs. coded_feature x"
  shows "\<exists>printed. categories_loop t xs = (printed, Inr (concat (map (expected_categories t) xs)))"
  using assms
proof (induction xs)
  case Nil
  then show ?case by simp
next
  case (Cons x xs)
  with coded_feature_categories [of x t] show ?case by auto
qed

text \<open>
  Claim C5. Let \<^verbatim>\<open>features\<close> be a list (or absent) of dictionaries whose \<^verbatim>\<open>dataType\<close>, when
  present, is a string and whose \<^verbatim>\<open>valueSet\<close>, when present, is a dictionary with a list
  of dictionaries as \<^verbatim>\<open>concept\<close>. The extractor returns, feature by feature in the order
  of \<^verbatim>\<open>features\<close>, one row for each concept of each feature whose upper-cased \<^verbatim>\<open>dataType\<close>
  is \<^verbatim>\<open>NOMINAL\<close> and that has a \<^verbatim>\<open>valueSet\<close> (and a \<^verbatim>\<open>name\<close>), in the order of the concepts:
  the table name, the name of the feature, the code, the empty string, 0 and the
  display, a missing code or display being the empty string. The result depends on no
  other key of the descriptor than \<^verbatim>\<open>features\<close>, so not on \<^verbatim>\<open>outcomes\<close>.
\<close>

theorem extract_categories_rows:
  assumes features: "field (JObj e) ''features'' (JList []) = JList fs"
    and coded: "\<forall>x \<in> set fs. coded_feature x"
  shows "snd (extract_categories (JObj e) table_name)
           = Inr (concat (map (expected_categories table_name) fs))
       \<and> (map_of e' ''features'' = map_of e ''features'' \<longrightarrow>
            extract_categories (JObj e') table_name = extract_categories (JObj e) table_name)"
proof
  have "get (JObj e) ''features'' (JList []) = Inr (JList fs)"
    using features by (simp split: option.splits)
  with coded_categories_loop [OF coded, of table_name]
  show "snd (extract_categories (JObj e) table_name)
           = Inr (concat (map (expected_categories table_name) fs))"
    by (auto simp add: extract_categories_def)
  show "map_of e' ''features'' = map_of e ''features'' \<longrightarrow>
      extract_categories (JObj e') table_name = extract_categories (JObj e) table_name"
    by (simp add: extract_categories_def)
qed


theorem extract_categories_rows_witness:
  "snd (extract_categories
      (JObj [(''features'',
               JList [JObj [(''name'', JStr ''age''), (''dataType'', JStr ''NUMERIC'')],
                      JObj [(''name'', JStr ''sex''), (''dataType'', JStr ''NOMINAL''),
                            (''valueSet'', JObj [(''concept'',
                               JList [JObj [(''code'', JStr ''M''), (''display'', JStr ''Male'')],
                                      JObj [(''code'', JStr ''F''), (''display'', JStr ''Female'')],
                                      JObj []])])]]),
             (''outcomes'',
               JList [JObj [(''name'', JStr ''died''), (''dataType'', JStr ''NOMINAL''),
                            (''valueSet'', JObj [(''concept'',
                               JList [JObj [(''code'', JStr ''Y''), (''display'', JStr ''yes'')]])])]])])
      ''demo'')
   = Inr [\<lparr>cat_table = ''demo'', cat_variable = JStr ''sex'', cat_name = JStr ''M'', cat_code = [],
            cat_missing = 0, cat_label = JStr ''Male''\<rparr>,
          \<lparr>cat_table = ''demo'', cat_variable = JStr ''sex'', cat_name = JStr ''F'', cat_code = [],
            cat_missing = 0, cat_label = JStr ''Female''\<rparr>,
          \<lparr>cat_table = ''demo'', cat_variable = JStr ''sex'', cat_name = JStr [], cat_code = [],
            cat_missing = 0, cat_label = JStr []\<rparr>]"
proof -
  let ?age = "JObj [(''name'', JStr ''age''), (''dataType'', JStr ''NUMERIC'')]"
  let ?sex = "JObj [(''name'', JStr ''sex''), (''dataType'', JStr ''NOMINAL''),
                    (''valueSet'', JObj [(''concept'',
                       JList [JObj [(''code'', JStr ''M''), (''display'', JStr ''Male'')],
                              JObj [(''code'', JStr ''F''), (''display'', JStr ''Female'')],
                              JObj []])])]"
  let ?e = "[(''features'', JList [?age, ?sex]),
             (''outcomes'',
               JList [JObj [(''name'', JStr ''died''), (''dataType'', JStr ''NOMINAL''),
                            (''valueSet'', JObj [(''concept'',
                               JList [JObj [(''code'', JStr ''Y''), (''display'', JStr ''yes'')]])])]])]"
  have features: "field (JObj ?e) ''features'' (JList []) = JList [?age, ?sex]"
    by simp
  have coded: "\<forall>x \<in> set [?age, ?sex]. coded_feature x"
    by (simp add: coded_feature_def)
  have age: "expected_categories ''demo'' ?age = []"
    by (simp add: expected_categories_def is_nominal_def upper_str_literals)
  have sex: "expected_categories ''demo'' ?sex =
      [\<lparr>cat_table = ''demo'', cat_variable = JStr ''sex'', cat_name = JStr ''M'', cat_code = [],
            cat_missing = 0, cat_label = JStr ''Male''\<rparr>,
          \<lparr>cat_table = ''demo'', cat_variable = JStr ''sex'', cat_name = JStr ''F'', cat_code = [],
            cat_missing = 0, cat_label = JStr ''Female''\<rparr>,
          \<lparr>cat_table = ''demo'', cat_variable = JStr ''sex'', cat_name = JStr [], cat_code = [],
            cat_missing = 0, cat_label = JStr []\<rparr>]"
    by (simp add: expected_categories_def expected_category_def is_nominal_def concept_list_def upper_str_literals)
  from extract_categories_rows [OF features coded, of "''demo''" ?e, THEN conjunct1]
  show ?thesis
    by (simp only: list.map concat.simps age sex append.simps)
qed

section \<open>Keys of the output rows\<close>

lemma variable_row_Inr:
  "variable_row repr t ent x = (printed, Inr row) \<Longrightarrow>
     has_field x ''name'' \<and> var_name row = field x ''name'' JNull"
  by (cases x)
     (auto simp add: variable_row_def andthen_def split: option.splits sum.splits prod.splits)

lemma iter_error: "iter v = Inl err \<Longrightarrow> err = TypeError"
  by (cases v) simp_all

lemma variable_row_KeyError:
  "variable_row repr t ent x = (printed, Inl KeyError) \<Longrightarrow> \<not> has_field x ''name''"
  by (cases x)
     (auto simp add: variable_row_def andthen_def join_def
       split: option.splits sum.splits prod.splits if_splits dest: iter_error)

lemma variable_row_dict:
  "variable_row repr t ent x = (printed, r) \<Longrightarrow> r \<noteq> Inl TypeError \<Longrightarrow> is_dict x"
  by (cases x) (auto simp add: variable_row_def)

lemma variables_loop_Inr:
  "variables_loop repr t ent xs = (printed, Inr rows) \<Longrightarrow>
     variable_names rows = feature_names xs \<and> list_all is_dict xs"
proof (induction xs arbitrary: printed rows)
  case Nil
  then show ?case by (simp add: variable_names_def feature_names_def)
next
  case (Cons x xs)
  obtain p r where row: "variable_row repr t ent x = (p, r)"
    by (cases "variable_row repr t ent x")
  show ?case
  proof (cases r)
    case (Inl err)
    with Cons.prems row have k: "err = KeyError"
      by (auto split: if_splits)
    with row Inl have "\<not> has_field x ''name''" and "is_dict x"
      by (auto dest: variable_row_KeyError variable_row_dict)
    moreover from Cons.prems row Inl k obtain p' where "variables_loop repr t ent xs = (p', Inr rows)"
      by (auto split: prod.splits)
    ultimately show ?thesis
      using Cons.IH [of p' rows] by (simp add: feature_names_def)
  next
    case (Inr v)
    with Cons.prems row obtain p' rest where "variables_loop repr t ent xs = (p', Inr rest)"
      and "rows = v # rest"
      by (auto split: prod.splits sum.splits)
    moreover from row Inr have "has_field x ''name''" and "var_name v = field x ''name'' JNull"
      and "is_dict x"
      by (auto dest: variable_row_Inr variable_row_dict)
    ultimately show ?thesis
      using Cons.IH [of p' rest] by (simp add: feature_names_def variable_names_def)
  qed
qed

lemma iter_sum_dicts:
  assumes "iter_sum a b = Inr xs" and "list_all is_dict xs"
  shows "xs = items a @ items b"
proof -
  have "s = [] \<and> u = []" if "list_all is_dict (map (\<lambda>c. JStr [c]) (s @ u))" for s u :: string
    using that by (cases s; cases u) simp_all
  with assms show ?thesis
    by (cases a; cases b) auto
qed

lemma extract_variables_Inr:
  assumes "snd (extract_variables repr entries t ent) = Inr rows"
  shows "variable_names rows =
     feature_names (items (field entries ''features'' (JList []))
                    @ items (field entries ''outcomes'' (JList [])))"
proof -
  from assms obtain xs p
    where xs: "andthen (get entries ''features'' (JList [])) (\<lambda>fs.
                 andthen (get entries ''outcomes'' (JList [])) (\<lambda>os. iter_sum fs os)) = Inr xs"
      and loop: "variables_loop repr t ent xs = (p, Inr rows)"
    by (auto simp add: extract_variables_def split: sum.splits prod.splits)
  from xs obtain a b where "get entries ''features'' (JList []) = Inr a"
    and "get entries ''outcomes'' (JList []) = Inr b" and sum: "iter_sum a b = Inr xs"
    by (auto simp add: andthen_def split: sum.splits)
  then have "a = field entries ''features'' (JList [])" and "b = field entries ''outcomes'' (JList [])"
    by (cases entries; auto split: option.splits)+
  with sum variables_loop_Inr [OF loop] show ?thesis
    by (auto dest: iter_sum_dicts)
qed

lemma category_keys_of:
  "category_keys (expected_categories t x) =
     (if is_nominal x \<and> has_field x ''valueSet'' \<and> has_field x ''name''
      then map (Pair (field x ''name'' JNull)) (concept_codes x) else [])"
  by (simp add: category_keys_def expected_categories_def expected_category_def concept_codes_def comp_def)

lemma category_keys_append:
  "category_keys (xs @ ys) = category_keys xs @ category_keys ys"
  by (simp add: category_keys_def)

lemma category_keys_names:
  "k \<in> set (category_keys (concat (map (expected_categories t) xs))) \<Longrightarrow>
     fst k \<in> set (feature_names xs)"
proof (induction xs)
  case Nil
  then show ?case by (simp add: category_keys_def)
next
  case (Cons x xs)
  then show ?case
    by (auto simp add: category_keys_append category_keys_of feature_names_def split: if_splits)
qed

lemma distinct_category_keys:
  assumes "distinct (feature_names xs)" and "\<forall>x \<in> set xs. distinct (concept_codes x)"
  shows "distinct (category_keys (concat (map (expected_categories t) xs)))"
  using assms
proof (induction xs)
  case Nil
  then show ?case by (simp add: category_keys_def)
next
  case (Cons x xs)
  then have rest: "distinct (category_keys (concat (map (expected_categories t) xs)))"
    by (auto simp add: feature_names_def split: if_splits)
  have own: "distinct (category_keys (expected_categories t x))"
    using Cons.prems(2) by (simp add: category_keys_of distinct_map inj_on_def)
  have "k \<notin> set (category_keys (concat (map (expected_categories t) xs)))"
    if "k \<in> set (category_keys (expected_categories t x))" for k
  proof
    assume "k \<in> set (category_keys (concat (map (expected_categories t) xs)))"
    then have "fst k \<in> set (feature_names xs)"
      by (rule category_keys_names)
    moreover from that have "has_field x ''name''" and "fst k = field x ''name'' JNull"
      by (auto simp add: category_keys_of split: if_splits)
    ultimately show False
      using Cons.prems(1) by (simp add: feature_names_def)
  qed
  with rest own show ?case
    by (auto simp add: category_keys_append)
qed

lemma feature_names_append:
  "feature_names (xs @ ys) = feature_names xs @ feature_names ys"
  by (simp add: feature_names_def)

text \<open>
  Claim C6 holds the keys of the output unique in every run. The extractors copy the
  names and codes of the descriptor and remove no duplicate: a feature whose two
  concepts have the same code gives two category rows with the same variable and code,
  and a feature and an outcome of the same name give two variable rows of that name.
\<close>

theorem output_keys_counterexample:
  "snd (extract_categories
      (JObj [(''features'',
               JList [JObj [(''name'', JStr ''sex''), (''dataType'', JStr ''NOMINAL''),
                            (''valueSet'', JObj [(''concept'',
                               JList [JObj [(''code'', JStr ''M''), (''display'', JStr ''Male'')],
                                      JObj [(''code'', JStr ''M''), (''display'', JStr ''Man'')]])])]]),
             (''outcomes'', JList [])])
      ''demo'')
   = Inr [\<lparr>cat_table = ''demo'', cat_variable = JStr ''sex'', cat_name = JStr ''M'', cat_code = [],
            cat_missing = 0, cat_label = JStr ''Male''\<rparr>,
          \<lparr>cat_table = ''demo'', cat_variable = JStr ''sex'', cat_name = JStr ''M'', cat_code = [],
            cat_missing = 0, cat_label = JStr ''Man''\<rparr>]
   \<and> \<not> distinct (category_keys
          [\<lparr>cat_table = ''demo'', cat_variable = JStr ''sex'', cat_name = JStr ''M'', cat_code = [],
             cat_missing = 0, cat_label = JStr ''Male''\<rparr>,
           \<lparr>cat_table = ''demo'', cat_variable = JStr ''sex'', cat_name = JStr ''M'', cat_code = [],
             cat_missing = 0, cat_label = JStr ''Man''\<rparr>])
   \<and> snd (extract_variables blank_repr
      (JObj [(''features'', JList [JObj [(''name'', JStr ''age''), (''dataType'', JStr ''NUMERIC'')]]),
             (''outcomes'', JList [JObj [(''name'', JStr ''age''), (''dataType'', JStr ''BOOLEAN'')]])])
      ''demo'' (JStr ''participant''))
   = Inr [\<lparr>var_table = ''demo'', var_name = JStr ''age'', var_valueType = ''decimal'',
            var_entityType = JStr ''participant'', var_unit = [], var_label = [],
            var_script = ''$('age')''\<rparr>,
          \<lparr>var_table = ''demo'', var_name = JStr ''age'', var_valueType = ''boolean'',
            var_entityType = JStr ''participant'', var_unit = [], var_label = [],
            var_script = ''$('age')''\<rparr>]
   \<and> \<not> distinct (variable_names
          [\<lparr>var_table = ''demo'', var_name = JStr ''age'', var_valueType = ''decimal'',
            var_entityType = JStr ''participant'', var_unit = [], var_label = [],
            var_script = ''$('age')''\<rparr>,
          \<lparr>var_table = ''demo'', var_name = JStr ''age'', var_valueType = ''boolean'',
            var_entityType = JStr ''participant'', var_unit = [], var_label = [],
            var_script = ''$('age')''\<rparr>])"
proof (intro conjI)
  show "snd (extract_categories
      (JObj [(''features'',
               JList [JObj [(''name'', JStr ''sex''), (''dataType'', JStr ''NOMINAL''),
                            (''valueSet'', JObj [(''concept'',
                               JList [JObj [(''code'', JStr ''M''), (''display'', JStr ''Male'')],
                                      JObj [(''code'', JStr ''M''), (''display'', JStr ''Man'')]])])]]),
             (''outcomes'', JList [])])
      ''demo'')
   = Inr [\<lparr>cat_table = ''demo'', cat_variable = JStr ''sex'', cat_name = JStr ''M'', cat_code = [],
            cat_missing = 0, cat_label = JStr ''Male''\<rparr>,
          \<lparr>cat_table = ''demo'', cat_variable = JStr ''sex'', cat_name = JStr ''M'', cat_code = [],
            cat_missing = 0, cat_label = JStr ''Man''\<rparr>]"
    by (simp add: extract_categories_def feature_categories_def nominal_concepts_def concept_row_def
        upper_str_literals)
  show "snd (extract_variables blank_repr
      (JObj [(''features'', JList [JObj [(''name'', JStr ''age''), (''dataType'', JStr ''NUMERIC'')]]),
             (''outcomes'', JList [JObj [(''name'', JStr ''age''), (''dataType'', JStr ''BOOLEAN'')]])])
      ''demo'' (JStr ''participant''))
   = Inr [\<lparr>var_table = ''demo'', var_name = JStr ''age'', var_valueType = ''decimal'',
            var_entityType = JStr ''participant'', var_unit = [], var_label = [],
            var_script = ''$('age')''\<rparr>,
          \<lparr>var_table = ''demo'', var_name = JStr ''age'', var_valueType = ''boolean'',
            var_entityType = JStr ''participant'', var_unit = [], var_label = [],
            var_script = ''$('age')''\<rparr>]"
    by (simp add: extract_variables_def variable_row_def join_def determine_value_type_def
        determine_value_type_try_def type_mapping_def upper_str_literals strip_def is_space_def)
qed (simp_all add: category_keys_def variable_names_def)

text \<open>
  Claim C6, amended. Uniqueness is kept, not made: whenever the two extractors return
  their rows, the names of the variable rows are the names of the items of \<^verbatim>\<open>features\<close>
  followed by \<^verbatim>\<open>outcomes\<close>, so they are unique if those names are; and the pairs of
  variable and code of the category rows are unique if moreover the codes of the
  concepts of each feature are unique.
\<close>

theorem output_keys_distinct:
  assumes variables: "snd (extract_variables repr entries table_name entity_type) = Inr variables"
    and categories: "snd (extract_categories entries table_name) = Inr categories"
    and names: "distinct (feature_names (items (field entries ''features'' (JList []))
                                         @ items (field entries ''outcomes'' (JList []))))"
    and codes: "\<forall>x \<in> set (items (field entries ''features'' (JList []))).
                  distinct (concept_codes x)"
  shows "distinct (variable_names variables) \<and> distinct (category_keys categories)"
proof
  show "distinct (variable_names variables)"
    using extract_variables_Inr [OF variables] names by simp
  from names have "distinct (feature_names (items (field entries ''features'' (JList []))))"
    by (simp add: feature_names_append)
  with codes extract_categories_Inr [OF categories] show "distinct (category_keys categories)"
    by (simp add: distinct_category_keys)
qed

theorem output_keys_distinct_witness:
  "distinct (variable_names
      [\<lparr>var_table = ''demo'', var_name = JStr ''sex'', var_valueType = ''text'',
         var_entityType = JStr ''participant'', var_unit = [], var_label = [],
         var_script = ''$('sex')''\<rparr>,
       \<lparr>var_table = ''demo'', var_name = JStr ''died'', var_valueType = ''boolean'',
         var_entityType = JStr ''participant'', var_unit = [], var_label = [],
         var_script = ''$('died')''\<rparr>])
   \<and> distinct (category_keys
      [\<lparr>cat_table = ''demo'', cat_variable = JStr ''sex'', cat_name = JStr ''M'', cat_code = [],
         cat_missing = 0, cat_label = JStr ''Male''\<rparr>,
       \<lparr>cat_table = ''demo'', cat_variable = JStr ''sex'', cat_name = JStr ''F'', cat_code = [],
         cat_missing = 0, cat_label = JStr ''Female''\<rparr>])"
proof -
  let ?sex = "JObj [(''name'', JStr ''sex''), (''dataType'', JStr ''NOMINAL''),
                    (''valueSet'', JObj [(''concept'',
                       JList [JObj [(''code'', JStr ''M''), (''display'', JStr ''Male'')],
                              JObj [(''code'', JStr ''F''), (''display'', JStr ''Female'')]])])]"
  let ?died = "JObj [(''name'', JStr ''died''), (''dataType'', JStr ''BOOLEAN'')]"
  let ?entries = "JObj [(''features'', JList [?sex]), (''outcomes'', JList [?died])]"
  have variables: "snd (extract_variables blank_repr ?entries ''demo'' (JStr ''participant''))
      = Inr [\<lparr>var_table = ''demo'', var_name = JStr ''sex'', var_valueType = ''text'',
               var_entityType = JStr ''participant'', var_unit = [], var_label = [],
               var_script = ''$('sex')''\<rparr>,
             \<lparr>var_table = ''demo'', var_name = JStr ''died'', var_valueType = ''boolean'',
               var_entityType = JStr ''participant'', var_unit = [], var_label = [],
               var_script = ''$('died')''\<rparr>]"
    by (simp add: extract_variables_def variable_row_def join_def determine_value_type_def
        determine_value_type_try_def nominal_value_type_def type_mapping_def upper_str_literals
        strip_def is_space_def)
  have categories: "snd (extract_categories ?entries ''demo'')
      = Inr [\<lparr>cat_table = ''demo'', cat_variable = JStr ''sex'', cat_name = JStr ''M'',
               cat_code = [], cat_missing = 0, cat_label = JStr ''Male''\<rparr>,
             \<lparr>cat_table = ''demo'', cat_variable = JStr ''sex'', cat_name = JStr ''F'',
               cat_code = [], cat_missing = 0, cat_label = JStr ''Female''\<rparr>]"
    by (simp add: extract_categories_def feature_categories_def nominal_concepts_def concept_row_def
        upper_str_literals)
  have names: "distinct (feature_names (items (field ?entries ''features'' (JList []))
                                        @ items (field ?entries ''outcomes'' (JList []))))"
    by (simp add: feature_names_def)
  have codes: "\<forall>x \<in> set (items (field ?entries ''features'' (JList []))).
                 distinct (concept_codes x)"
    by (simp add: concept_codes_def concept_list_def)
  from output_keys_distinct [OF variables categories names codes] show ?thesis .
qed

section \<open>Properties of the availability encoder\<close>

lemma assign_present:
  "distinct (map fst (pre @ (col, old) # post)) \<Longrightarrow>
     assign (pre @ (col, old) # post) col cells = pre @ (col, cells) # post"
  by (induction pre) auto

lemma column_present:
  "distinct (map fst (pre @ (col, old) # post)) \<Longrightarrow>
     column (pre @ (col, old) # post) col = Inr old"
  by (induction pre) (auto simp add: column_def)

lemma encode_loop_columns:
  assumes "distinct (map fst (done @ todo))"
  shows "encode_loop (done @ todo) (map fst todo) = Inr (done @ map encode_column todo)"
  using assms
proof (induction todo arbitrary: "done")
  case Nil
  then show ?case by simp
next
  case (Cons c todo)
  obtain col old where c: "c = (col, old)" by (cases c)
  from Cons.prems have d: "distinct (map fst ((done @ [encode_column c]) @ todo))"
    by (simp add: encode_column_def)
  show ?case
  proof (cases "col \<in> set BASE_COLUMNS")
    case True
    with c Cons.IH [OF d] show ?thesis
      by (simp add: encode_column_def)
  next
    case False
    with c Cons.prems Cons.IH [OF d] show ?thesis
      by (simp add: encode_column_def column_present assign_present)
  qed
qed

lemma encode_loop_frame:
  "distinct (map fst df) \<Longrightarrow> encode_loop df (map fst df) = Inr (map encode_column df)"
  using encode_loop_columns [of "[]" df] by simp

lemma transform_data_frame:
  assumes "distinct (map fst df)"
  shows "transform_data df dictionary =
     ((case dictionary of None \<Rightarrow> [] | Some d \<Rightarrow> validate_dictionary (map fst df) d)
        @ [TransformationCompleted],
      Inr (map encode_column df))"
  using encode_loop_frame [OF assms] by (simp add: transform_data_def)

text \<open>
  Claim C2. A cell counts as filled if it is neither null nor empty, as the comment
  above the loop says (0 if empty, 1 if filled), so the column \<^verbatim>\<open>[null, "x", ""]\<close> should
  become \<^verbatim>\<open>[0, 1, 0]\<close>. The loop tests \<^verbatim>\<open>notna()\<close>, which holds for the empty string: the
  column becomes \<^verbatim>\<open>[0, 1, 1]\<close>. The identifier column is unchanged.
\<close>

theorem empty_string_encoded_as_filled:
  "snd (transform_data [(''pid'', [CStr ''p1'', CStr ''p2'', CStr ''p3'']),
                        (''smoker'', [NA, CStr ''x'', CStr []])] None)
     = Inr [(''pid'', [CStr ''p1'', CStr ''p2'', CStr ''p3'']),
            (''smoker'', [CInt 0, CInt 1, CInt 1])]
   \<and> map spec_availability [NA, CStr ''x'', CStr []] = [CInt 0, CInt 1, CInt 0]"
  by (simp add: transform_data_def column_def availability_def BASE_COLUMNS_def
      spec_availability_def)

text \<open>
  What the loop computes for a frame with distinct column names, whatever the
  dictionary argument: the identifier columns are unchanged, and in every other column
  a cell becomes 0 if it is missing and 1 otherwise.
\<close>

lemma transform_data_columns:
  assumes "distinct (map fst df)"
  shows "snd (transform_data df dictionary) =
     Inr (map (\<lambda>col. if fst col \<in> {''pid'', ''encounterId'', ''referenceTimePoint'',
                                       ''eventTime'', ''exitTime''}
                       then col
                       else (fst col, map (\<lambda>c. CInt (if c = NA then 0 else 1)) (snd col))) df)"
proof -
  have "availability c = CInt (if c = NA then 0 else 1)" for c
    by (cases c) (simp_all add: availability_def)
  then have "encode_column col =
      (if fst col \<in> {''pid'', ''encounterId'', ''referenceTimePoint'', ''eventTime'', ''exitTime''}
       then col else (fst col, map (\<lambda>c. CInt (if c = NA then 0 else 1)) (snd col)))" for col
    by (simp add: encode_column_def BASE_COLUMNS_def)
  then show ?thesis
    by (simp add: transform_data_frame [OF assms])
qed

lemma cell_str_image: "cell_str ` CStr ` A = A"
  by (auto simp add: image_iff)

lemma print_names_strings:
  "print_names line (CStr ` A) = Inr (if A = {} then [] else [line A])"
  by (simp add: print_names_def cell_str_image)

lemma missing_strings:
  "missing_in_dict cols (map CStr names) = CStr ` (set (cols_to_check cols) - set names)"
  "missing_in_parquet cols (map CStr names) = CStr ` (set names - set (cols_to_check cols))"
  by (auto simp add: missing_in_dict_def missing_in_parquet_def)

lemma validate_dictionary_strings:
  "validate_dictionary cols (Inr (map CStr names)) =
     (if set (cols_to_check cols) - set names = {} \<and> set names - set (cols_to_check cols) = {}
      then [ValidationSuccessful]
      else [ValidationErrors]
           @ (if set (cols_to_check cols) - set names = {} then []
              else [MissingInXLS (set (cols_to_check cols) - set names)])
           @ (if set names - set (cols_to_check cols) = {} then []
              else [MissingInParquet (set names - set (cols_to_check cols))])
           @ [Proceeding])"
  by (simp add: validate_dictionary_def missing_strings print_names_strings Let_def)

text \<open>
  Claim C7. The validator is advisory. An error of reading the dictionary is printed as
  a validation error followed by the notice that the transformation proceeds, and is not
  raised. For a dictionary of names, the lines printed are the two sides of the
  symmetric difference between the table columns that are not identifier columns and
  the names: the columns missing in the dictionary, then the names missing in the
  table, each line only when its set is not empty; the columns \<^verbatim>\<open>pid\<close>, \<^verbatim>\<open>a\<close>, \<^verbatim>\<open>b\<close> against
  the names \<^verbatim>\<open>a\<close>, \<^verbatim>\<open>c\<close> give \<^verbatim>\<open>b\<close> as missing in the dictionary and \<^verbatim>\<open>c\<close> as missing in the
  table. Whatever the outcome \<open>d\<close> of reading the dictionary, the encoder goes on: it
  prints the lines of the validator and the completion line, and writes the same table
  as without a dictionary.
\<close>

theorem validate_dictionary_advisory:
  "validate_dictionary cols (Inl err) = [ValidationError err, Proceeding]
   \<and> validate_dictionary cols (Inr (map CStr names)) =
       (if set (cols_to_check cols) - set names = {} \<and> set names - set (cols_to_check cols) = {}
        then [ValidationSuccessful]
        else [ValidationErrors]
             @ (if set (cols_to_check cols) - set names = {} then []
                else [MissingInXLS (set (cols_to_check cols) - set names)])
             @ (if set names - set (cols_to_check cols) = {} then []
                else [MissingInParquet (set names - set (cols_to_check cols))])
             @ [Proceeding])
   \<and> validate_dictionary [''pid'', ''a'', ''b''] (Inr [CStr ''a'', CStr ''c''])
       = [ValidationErrors, MissingInXLS {''b''}, MissingInParquet {''c''}, Proceeding]
   \<and> (distinct (map fst df) \<longrightarrow>
        fst (transform_data df (Some d)) = validate_dictionary (map fst df) d @ [TransformationCompleted]
        \<and> snd (transform_data df (Some d)) = snd (transform_data df None)
        \<and> (\<exists>out. snd (transform_data df (Some d)) = Inr out))"
proof (intro conjI)
  show "validate_dictionary cols (Inl err) = [ValidationError err, Proceeding]"
    by (simp add: validate_dictionary_def)
  show "validate_dictionary [''pid'', ''a'', ''b''] (Inr [CStr ''a'', CStr ''c''])
       = [ValidationErrors, MissingInXLS {''b''}, MissingInParquet {''c''}, Proceeding]"
    using validate_dictionary_strings [of "[''pid'', ''a'', ''b'']" "[''a'', ''c'']"]
    by (simp add: cols_to_check_def BASE_COLUMNS_def)
  show "distinct (map fst df) \<longrightarrow>
        fst (transform_data df (Some d)) = validate_dictionary (map fst df) d @ [TransformationCompleted]
        \<and> snd (transform_data df (Some d)) = snd (transform_data df None)
        \<and> (\<exists>out. snd (transform_data df (Some d)) = Inr out)"
    by (simp add: transform_data_frame)
qed (rule validate_dictionary_strings)

theorem validate_dictionary_advisory_witness:
  "transform_data [(''pid'', [CStr ''p1'', CStr ''p2'']), (''a'', [NA, CInt 7]), (''b'', [CStr ''x'', NA])]
      (Some (Inr [CStr ''a'', CStr ''c'']))
     = ([ValidationErrors, MissingInXLS {''b''}, MissingInParquet {''c''}, Proceeding,
         TransformationCompleted],
        Inr [(''pid'', [CStr ''p1'', CStr ''p2'']), (''a'', [CInt 0, CInt 1]), (''b'', [CInt 1, CInt 0])])
   \<and> transform_data [(''pid'', [CStr ''p1'', CStr ''p2'']), (''a'', [NA, CInt 7]), (''b'', [CStr ''x'', NA])]
      (Some (Inl IndexError))
     = ([ValidationError IndexError, Proceeding, TransformationCompleted],
        Inr [(''pid'', [CStr ''p1'', CStr ''p2'']), (''a'', [CInt 0, CInt 1]), (''b'', [CInt 1, CInt 0])])"
proof -
  let ?df = "[(''pid'', [CStr ''p1'', CStr ''p2'']), (''a'', [NA, CInt 7]), (''b'', [CStr ''x'', NA])]"
  have none: "snd (transform_data ?df None)
      = Inr [(''pid'', [CStr ''p1'', CStr ''p2'']), (''a'', [CInt 0, CInt 1]), (''b'', [CInt 1, CInt 0])]"
    by (simp add: transform_data_def column_def availability_def BASE_COLUMNS_def)
  from none
    validate_dictionary_advisory [where df = ?df and d = "Inr [CStr ''a'', CStr ''c'']"]
    validate_dictionary_advisory [where df = ?df and d = "Inl IndexError" and err = IndexError
      and cols = "[''pid'', ''a'', ''b'']"]
  show ?thesis
    by (simp add: prod_eq_iff)
qed

section \<open>Properties of the format converter\<close>

lemma foldr_max_rect:
  "\<forall>c \<in> set cols. length c = n \<Longrightarrow> cols \<noteq> [] \<Longrightarrow>
     foldr (\<lambda>xs. max (length xs)) cols 0 = n"
proof (induction cols)
  case Nil
  then show ?case by simp
next
  case (Cons c cols)
  show ?case
  proof (cases "cols = []")
    case True
    with Cons.prems show ?thesis by simp
  next
    case False
    with Cons have "foldr (\<lambda>xs. max (length xs)) cols 0 = n" by simp
    with Cons.prems show ?thesis by simp
  qed
qed

lemma length_transpose_rect:
  assumes "\<forall>c \<in> set cols. length c = n" and "cols \<noteq> []"
  shows "length (transpose cols) = n"
  using foldr_max_rect [OF assms] by (simp add: length_transpose)

lemma nth_transpose_rect:
  assumes "\<forall>c \<in> set cols. length c = n" and "i < n" and "cols \<noteq> []"
  shows "transpose cols ! i = map (\<lambda>c. c ! i) cols"
proof -
  have "i < length (transpose cols)"
    using assms length_transpose_rect [of cols n] by simp
  moreover have "filter (\<lambda>ys. i < length ys) cols = cols"
    using assms by (simp add: filter_id_conv)
  ultimately show ?thesis by (simp add: nth_transpose)
qed

lemma transpose_rect_inject:
  assumes xs: "\<forall>c \<in> set xs. length c = n" and ys: "\<forall>c \<in> set ys. length c = m"
    and len: "length xs = length ys" and eq: "transpose xs = transpose ys"
  shows "xs = ys"
proof (cases "xs = []")
  case True
  with len show ?thesis by simp
next
  case False
  with len have ne: "ys \<noteq> []" by auto
  have "length (transpose xs) = n" using xs False by (rule length_transpose_rect)
  moreover have "length (transpose ys) = m" using ys ne by (rule length_transpose_rect)
  ultimately have nm: "n = m" using eq by simp
  show ?thesis
  proof (rule nth_equalityI)
    show "length xs = length ys" by (rule len)
  next
    fix j assume j: "j < length xs"
    then have xj: "xs ! j \<in> set xs" and yj: "ys ! j \<in> set ys"
      using len by simp_all
    show "xs ! j = ys ! j"
    proof (rule nth_equalityI)
      show "length (xs ! j) = length (ys ! j)"
        using xj yj xs ys nm by auto
    next
      fix i assume "i < length (xs ! j)"
      with xj xs have i: "i < n" by auto
      then have i': "i < m" using nm by simp
      have "transpose xs ! i = map (\<lambda>c. c ! i) xs"
        using xs i False by (rule nth_transpose_rect)
      then have "xs ! j ! i = (transpose xs ! i) ! j"
        using j by simp
      also have "\<dots> = (transpose ys ! i) ! j"
        by (simp only: eq)
      also have "transpose ys ! i = map (\<lambda>c. c ! i) ys"
        using ys i' ne by (rule nth_transpose_rect)
      finally show "xs ! j ! i = ys ! j ! i"
        using j len by simp
    qed
  qed
qed

lemma rectangular_columns:
  "rectangular df \<Longrightarrow>
     \<forall>c \<in> set (map (\<lambda>col. map f (snd col)) df). length c = length (snd (hd df))"
  by (auto simp add: rectangular_def)

lemma to_csv_determines:
  assumes "rectangular df" and "rectangular df'" and "to_csv render df = to_csv render df'"
  shows "map fst df = map fst df'
       \<and> map (\<lambda>col. map (field_text render) (snd col)) df
           = map (\<lambda>col. map (field_text render) (snd col)) df'"
proof -
  let ?cols = "map (\<lambda>col. map (field_text render) (snd col)) df"
  let ?cols' = "map (\<lambda>col. map (field_text render) (snd col)) df'"
  from assms(3) have names: "map fst df = map fst df'" and rows: "transpose ?cols = transpose ?cols'"
    by (simp_all add: to_csv_def)
  from names have "length df = length df'"
    by (rule map_eq_imp_length_eq)
  then have len: "length ?cols = length ?cols'"
    by simp
  have "?cols = ?cols'"
    using rectangular_columns [OF assms(1)] rectangular_columns [OF assms(2)] len rows
    by (rule transpose_rect_inject)
  with names show ?thesis by simp
qed

lemma field_text_string_cells:
  "cell_is_str x \<Longrightarrow> cell_is_str y \<Longrightarrow> field_text render x = field_text render y \<Longrightarrow> x = y"
  by (cases x; cases y) simp_all

lemma field_text_strings:
  "\<forall>c \<in> set xs. cell_is_str c \<Longrightarrow> \<forall>c \<in> set ys. cell_is_str c \<Longrightarrow>
     map (field_text render) xs = map (field_text render) ys \<Longrightarrow> xs = ys"
proof (induction xs arbitrary: ys)
  case Nil
  then show ?case by simp
next
  case (Cons x xs)
  from Cons.prems(3) obtain y ys' where ys: "ys = y # ys'"
    by (cases ys) auto
  from Cons.prems ys have "x = y"
    by (auto intro: field_text_string_cells)
  moreover from Cons.prems ys have "xs = ys'"
    by (intro Cons.IH) auto
  ultimately show ?case using ys by simp
qed

lemma text_only_determined:
  "text_only df \<Longrightarrow> text_only df' \<Longrightarrow> map fst df = map fst df' \<Longrightarrow>
     map (\<lambda>col. map (field_text render) (snd col)) df
       = map (\<lambda>col. map (field_text render) (snd col)) df' \<Longrightarrow> df = df'"
proof (induction df arbitrary: df')
  case Nil
  then show ?case by simp
next
  case (Cons c df)
  from Cons.prems(3) obtain c' rest where df': "df' = c' # rest"
    by (cases df') auto
  from Cons.prems df' have "fst c = fst c'"
    and texts: "map (field_text render) (snd c) = map (field_text render) (snd c')"
    and "\<forall>x \<in> set (snd c). cell_is_str x" and "\<forall>x \<in> set (snd c'). cell_is_str x"
    by (simp_all add: text_only_def)
  then have "snd c = snd c'"
    by (intro field_text_strings)
  with \<open>fst c = fst c'\<close> have "c = c'"
    by (simp add: prod_eq_iff)
  moreover from Cons.prems df' have "df = rest"
    by (intro Cons.IH) (simp_all add: text_only_def)
  ultimately show ?case using df' by simp
qed

text \<open>
  Claim C8 holds the output, parsed again, identical to the input in its values. The
  writer puts the empty field both for a missing value and for the empty string: the
  frames with a null and with an empty string in column \<^verbatim>\<open>a\<close> give the same records, and
  they are different frames.
\<close>

theorem round_trip_counterexample:
  "parquet_to_csv blank_text [(''a'', [NA]), (''b'', [CStr ''x''])] = [[''a'', ''b''], ['''', ''x'']]
   \<and> parquet_to_csv blank_text [(''a'', [CStr '''']), (''b'', [CStr ''x''])]
       = [[''a'', ''b''], ['''', ''x'']]
   \<and> [(''a'', [NA]), (''b'', [CStr ''x''])] \<noteq> [(''a'', [CStr '''']), (''b'', [CStr ''x''])]"
  by (simp add: parquet_to_csv_def to_csv_def)

text \<open>
  So no parser gives every frame back, however the records are written into lines.
\<close>

lemma no_lossless_reparser:
  "\<not> (\<exists>parse. \<forall>df. rectangular df \<longrightarrow> parse (write (parquet_to_csv render df)) = df)"
proof
  assume "\<exists>parse. \<forall>df. rectangular df \<longrightarrow> parse (write (parquet_to_csv render df)) = df"
  then obtain parse where inverse: "\<And>df. rectangular df \<Longrightarrow> parse (write (parquet_to_csv render df)) = df"
    by blast
  let ?null = "[(''a'', [NA]), (''b'', [CStr ''x''])]"
  let ?empty = "[(''a'', [CStr '''']), (''b'', [CStr ''x''])]"
  have same: "parquet_to_csv render ?null = parquet_to_csv render ?empty"
    by (simp add: parquet_to_csv_def to_csv_def)
  have "rectangular ?null" and "rectangular ?empty"
    by (simp_all add: rectangular_def)
  then have "parse (write (parquet_to_csv render ?null)) = ?null"
    and "parse (write (parquet_to_csv render ?empty)) = ?empty"
    by (simp_all only: inverse)
  with same have "?null = ?empty" by simp
  then show False by simp
qed

text \<open>
  Claim C8, amended. The output determines the column names in their order and, cell by
  cell, the text written for each value, a missing value being written as the empty
  field: two frames with the same output agree in both. What it determines of the
  values is their text: two frames of strings with the same output are the same frame,
  whereas a missing value and an empty string are not told apart.
\<close>

theorem round_trip_up_to_text:
  assumes "rectangular df" and "rectangular df'"
    and "parquet_to_csv render df = parquet_to_csv render df'"
  shows "map fst df = map fst df'
       \<and> map (\<lambda>col. map (field_text render) (snd col)) df
           = map (\<lambda>col. map (field_text render) (snd col)) df'
       \<and> (text_only df \<and> text_only df' \<longrightarrow> df = df')"
proof -
  from assms have same: "map fst df = map fst df'
       \<and> map (\<lambda>col. map (field_text render) (snd col)) df
           = map (\<lambda>col. map (field_text render) (snd col)) df'"
    by (intro to_csv_determines) (simp_all add: parquet_to_csv_def)
  then have "text_only df \<and> text_only df' \<longrightarrow> df = df'"
    by (auto intro: text_only_determined)
  with same show ?thesis by simp
qed

theorem round_trip_up_to_text_witness:
  "map fst [(''a'', [NA]), (''b'', [CStr ''x''])] = map fst [(''a'', [CStr '''']), (''b'', [CStr ''x''])]
   \<and> map (\<lambda>col. map (field_text blank_text) (snd col)) [(''a'', [NA]), (''b'', [CStr ''x''])]
       = map (\<lambda>col. map (field_text blank_text) (snd col)) [(''a'', [CStr '''']), (''b'', [CStr ''x''])]"
proof -
  let ?null = "[(''a'', [NA]), (''b'', [CStr ''x''])]"
  let ?empty = "[(''a'', [CStr '''']), (''b'', [CStr ''x''])]"
  have same: "parquet_to_csv blank_text ?null = parquet_to_csv blank_text ?empty"
    by (simp add: parquet_to_csv_def to_csv_def)
  have null: "rectangular ?null" and empty: "rectangular ?empty"
    by (simp_all add: rectangular_def)
  note determined = round_trip_up_to_text [OF null empty same]
  from determined [THEN conjunct1] determined [THEN conjunct2, THEN conjunct1]
  show ?thesis by (rule conjI)
qed

end
